theory Spec2Isabelle
  imports Main
begin

section \<open>JavaScript values shared by the handlers and the client library\<close>

text \<open>
  Values that arrive as parsed JSON (HTTP response bodies, database rows). A JavaScript
  expression that may be \<^verbatim>\<open>undefined\<close> has type \<open>json option\<close>, with \<open>None\<close> for
  \<^verbatim>\<open>undefined\<close>. Numbers are modelled as integers.
\<close>

datatype json =
    JNull
  | JBool bool
  | JNum int
  | JStr string
  | JArr "json list"
  | JObj "(string \<times> json) list"

type_synonym jsval = "json option"

text \<open>
  A thrown value: an \<^verbatim>\<open>Error\<close> with its \<^verbatim>\<open>message\<close>; for an error of the HTTP client,
  \<open>response_data\<close> is what \<^verbatim>\<open>error.response?.data\<close> evaluates to.
\<close>

record js_exn =
  message :: string
  response_data :: jsval

definition plain_error :: "string \<Rightarrow> js_exn" where
  "plain_error m = \<lparr>message = m, response_data = None\<rparr>"

text \<open>Truthiness of a value (\<^verbatim>\<open>!v\<close> is its negation) and of a string or undefined.\<close>

fun truthy :: "jsval \<Rightarrow> bool" where
  "truthy None = False"
| "truthy (Some JNull) = False"
| "truthy (Some (JBool b)) = b"
| "truthy (Some (JNum n)) = (n \<noteq> 0)"
| "truthy (Some (JStr s)) = (s \<noteq> [])"
| "truthy (Some (JArr xs)) = True"
| "truthy (Some (JObj kvs)) = True"

fun truthy_str :: "string option \<Rightarrow> bool" where
  "truthy_str None = False"
| "truthy_str (Some s) = (s \<noteq> [])"

text \<open>
  \<^verbatim>\<open>v.k\<close> on a value that is neither null nor undefined: a member of an object, the
  length of an array or a string, undefined otherwise.
\<close>

fun js_prop :: "json \<Rightarrow> string \<Rightarrow> jsval" where
  "js_prop (JObj kvs) k = map_of kvs k"
| "js_prop (JArr xs) k = (if k = ''length'' then Some (JNum (int (length xs))) else None)"
| "js_prop (JStr s) k = (if k = ''length'' then Some (JNum (int (length s))) else None)"
| "js_prop v k = None"

text \<open>
  \<^verbatim>\<open>v.k\<close>: a TypeError when \<open>v\<close> is null or undefined, with the engine's message, in
  which the name of the member stands between single quotes.
\<close>

definition quoted :: "string \<Rightarrow> string" where
  "quoted k = CHR 0x27 # k @ [CHR 0x27]"

definition get_member :: "jsval \<Rightarrow> string \<Rightarrow> js_exn + jsval" where
  "get_member v k =
     (case v of
        None \<Rightarrow>
          Inl (plain_error (''Cannot read properties of undefined (reading '' @ quoted k @ '')''))
      | Some JNull \<Rightarrow>
          Inl (plain_error (''Cannot read properties of null (reading '' @ quoted k @ '')''))
      | Some j \<Rightarrow> Inr (js_prop j k))"

text \<open>\<^verbatim>\<open>v?.k\<close>: undefined when \<open>v\<close> is null or undefined.\<close>

definition opt_member :: "jsval \<Rightarrow> string \<Rightarrow> jsval" where
  "opt_member v k = (case v of None \<Rightarrow> None | Some JNull \<Rightarrow> None | Some j \<Rightarrow> js_prop j k)"

text \<open>\<^verbatim>\<open>a || b\<close>, and the same with a default that is a JSON value.\<close>

definition js_or :: "jsval \<Rightarrow> jsval \<Rightarrow> jsval" where
  "js_or a b = (if truthy a then a else b)"

definition or_else :: "jsval \<Rightarrow> json \<Rightarrow> json" where
  "or_else a d = (case a of None \<Rightarrow> d | Some j \<Rightarrow> if truthy (Some j) then j else d)"

text \<open>How an awaited promise settles.\<close>

datatype 'a settled = Resolves 'a | Rejects js_exn

text \<open>Decimal rendering of a number inside a template string.\<close>

definition digit_char :: "nat \<Rightarrow> char" where
  "digit_char n = ''0123456789'' ! (n mod 10)"

function show_nat :: "nat \<Rightarrow> string" where
  "show_nat n = (if n < 10 then [digit_char n] else show_nat (n div 10) @ [digit_char n])"
  by pat_completeness auto
termination
  by (relation "measure id") auto

declare show_nat.simps [simp del]

section \<open>HTTP events and responses of the serverless functions\<close>

record event =
  httpMethod :: string
  queryStringParameters :: "(string \<times> string) list option"

text \<open>
  The body is the object handed to \<^verbatim>\<open>JSON.stringify\<close>, as its list of members;
  a member whose value is undefined is left out, as \<^verbatim>\<open>JSON.stringify\<close> does.
\<close>

record response =
  statusCode :: nat
  headers :: "(string \<times> string) list"
  body :: "(string \<times> json) list option"

definition cors_headers :: "(string \<times> string) list" where
  "cors_headers =
     [(''Access-Control-Allow-Origin'', ''*''),
      (''Access-Control-Allow-Headers'', ''Content-Type''),
      (''Access-Control-Allow-Methods'', ''GET, POST, OPTIONS'')]"

definition stringify :: "(string \<times> jsval) list \<Rightarrow> (string \<times> json) list" where
  "stringify kvs = List.map_filter (\<lambda>(k, v). map_option (Pair k) v) kvs"

definition reply :: "nat \<Rightarrow> (string \<times> jsval) list \<Rightarrow> response" where
  "reply code kvs = \<lparr>statusCode = code, headers = cors_headers, body = Some (stringify kvs)\<rparr>"

definition preflight_reply :: response where
  "preflight_reply = \<lparr>statusCode = 204, headers = cors_headers, body = None\<rparr>"

section \<open>The session cleanup function (cleanup-sessions)\<close>

text \<open>
  The table \<^verbatim>\<open>user_sessions\<close> and the clock are the function's environment. Instants are
  integers (milliseconds); \<open>store_error\<close> is the error the store answers a delete with when
  it cannot perform it. \<open>clock_reads\<close> and \<open>deletes\<close> record what the function did:
  how often it evaluated \<^verbatim>\<open>new Date()\<close>, and the cutoffs of the deletes it issued.
\<close>

record session_row =
  row_id :: nat
  expires_at :: int

record world =
  rows :: "session_row list"
  store_error :: "string option"
  now :: int
  clock_reads :: nat
  deletes :: "int list"

record cleanup_env =
  supabaseUrl :: "string option"
  supabaseServiceKey :: "string option"

text \<open>Module initialisation: the client exists only when both credentials are set.\<close>

definition supabase_client :: "cleanup_env \<Rightarrow> bool" where
  "supabase_client env = (truthy_str (supabaseUrl env) \<and> truthy_str (supabaseServiceKey env))"

definition read_clock :: "world \<Rightarrow> int \<times> world" where
  "read_clock w = (now w, w\<lparr>clock_reads := Suc (clock_reads w)\<rparr>)"

text \<open>
  \<^verbatim>\<open>from('user_sessions').delete().lt('expires_at', cutoff).select()\<close>: one delete that
  returns the deleted rows, or the store's error with no row removed.
\<close>

definition delete_lt :: "int \<Rightarrow> world \<Rightarrow> (string + session_row list) \<times> world" where
  "delete_lt cutoff w =
     (let w1 = w\<lparr>deletes := deletes w @ [cutoff]\<rparr> in
      case store_error w of
        Some e \<Rightarrow> (Inl e, w1)
      | None \<Rightarrow> (Inr (filter (\<lambda>r. expires_at r < cutoff) (rows w)),
                 w1\<lparr>rows := filter (\<lambda>r. \<not> expires_at r < cutoff) (rows w)\<rparr>))"

definition cleanupExpiredSessions :: "bool \<Rightarrow> world \<Rightarrow> (js_exn + nat) \<times> world" where
  "cleanupExpiredSessions client w =
     (if \<not> client then (Inl (plain_error ''Database connection not available''), w)
      else
        let (cutoff, w1) = read_clock w in
        case delete_lt cutoff w1 of
          (Inl e, w2) \<Rightarrow> (Inl (plain_error e), w2)
        | (Inr data, w2) \<Rightarrow> (Inr (length data), w2))"

definition cleanup_handler :: "cleanup_env \<Rightarrow> event \<Rightarrow> world \<Rightarrow> response \<times> world" where
  "cleanup_handler env ev w =
     (if httpMethod ev = ''OPTIONS'' then (preflight_reply, w)
      else
        case cleanupExpiredSessions (supabase_client env) w of
          (Inr cleanedCount, w') \<Rightarrow>
            (reply 200
               [(''status'', Some (JStr ''success'')),
                (''message'', Some (JStr (''Cleaned up '' @ show_nat cleanedCount @ '' expired sessions'')))],
             w')
        | (Inl error, w') \<Rightarrow>
            (reply 500
               [(''status'', Some (JStr ''error'')),
                (''message'', Some (JStr ''Error cleaning up sessions'')),
                (''error'', Some (JStr (message error)))],
             w'))"

section \<open>The token exchange function (exchange-facebook-token)\<close>

record exchange_env =
  appId :: "string option"
  appSecret :: "string option"

text \<open>A call of \<^verbatim>\<open>axios.get(url, {params, timeout})\<close>.\<close>

record request =
  url :: string
  params :: "(string \<times> jsval) list"
  timeout :: "nat option"

definition redirectUri :: string where
  "redirectUri = ''https://crt-tech.org/oauth/facebook/callback''"

definition tokenExchangeUrl :: string where
  "tokenExchangeUrl = ''https://graph.facebook.com/v18.0/oauth/access_token''"

definition token_request :: "string \<Rightarrow> string \<Rightarrow> string \<Rightarrow> request" where
  "token_request client_id client_secret code =
     \<lparr>url = tokenExchangeUrl,
      params = [(''client_id'', Some (JStr client_id)),
                (''redirect_uri'', Some (JStr redirectUri)),
                (''client_secret'', Some (JStr client_secret)),
                (''code'', Some (JStr code))],
      timeout = Some 10000\<rparr>"

definition pages_request :: "jsval \<Rightarrow> request" where
  "pages_request access_token =
     \<lparr>url = ''https://graph.facebook.com/v18.0/me/accounts'',
      params = [(''access_token'', access_token),
                (''fields'', Some (JStr ''id,name,access_token,category,tasks''))],
      timeout = None\<rparr>"

definition user_request :: "jsval \<Rightarrow> request" where
  "user_request access_token =
     \<lparr>url = ''https://graph.facebook.com/v18.0/me'',
      params = [(''access_token'', access_token),
                (''fields'', Some (JStr ''id,name,email,accounts''))],
      timeout = None\<rparr>"

definition permissions_request :: "jsval \<Rightarrow> request" where
  "permissions_request access_token =
     \<lparr>url = ''https://graph.facebook.com/v18.0/me/permissions'',
      params = [(''access_token'', access_token)],
      timeout = None\<rparr>"

text \<open>
  The network answers a request by resolving with \<^verbatim>\<open>response.data\<close> or by rejecting, or
  it never answers (\<open>None\<close>). \<^verbatim>\<open>await axios.get(...)\<close> settles with the answer; without an
  answer it rejects once the timeout of the request has passed, and never settles when the
  request has no timeout. Every function below returns, next to its result, the requests it
  performed, in order; the result \<open>None\<close> means that the function never completes.
\<close>

type_synonym network = "request \<Rightarrow> jsval settled option"

definition axios_get :: "network \<Rightarrow> request \<Rightarrow> jsval settled option" where
  "axios_get net r =
     (case net r of
        Some answer \<Rightarrow> Some answer
      | None \<Rightarrow>
          (case timeout r of
             None \<Rightarrow> None
           | Some ms \<Rightarrow>
               Some (Rejects (plain_error (''timeout of '' @ show_nat ms @ ''ms exceeded'')))))"

text \<open>
  The two diagnostic blocks run when no page came back. Each is a try/catch of its own whose
  result is only logged: the value computed here is what the try body evaluates, and the
  caller drops it.
\<close>

definition user_details :: "network \<Rightarrow> jsval \<Rightarrow> (js_exn + unit) option" where
  "user_details net access_token =
     (case axios_get net (user_request access_token) of
        None \<Rightarrow> None
      | Some (Rejects userError) \<Rightarrow> Some (Inl userError)
      | Some (Resolves d) \<Rightarrow>
          Some (case get_member d ''id'' of Inl e \<Rightarrow> Inl e | Inr _ \<Rightarrow> Inr ()))"

definition token_permissions :: "network \<Rightarrow> jsval \<Rightarrow> (js_exn + unit) option" where
  "token_permissions net access_token =
     (case axios_get net (permissions_request access_token) of
        None \<Rightarrow> None
      | Some (Rejects permError) \<Rightarrow> Some (Inl permError)
      | Some (Resolves d) \<Rightarrow>
          Some (case get_member d ''data'' of Inl e \<Rightarrow> Inl e | Inr _ \<Rightarrow> Inr ()))"

definition swallow :: "js_exn + unit \<Rightarrow> unit" where
  "swallow r = (case r of Inl e \<Rightarrow> () | Inr u \<Rightarrow> ())"

text \<open>\<^verbatim>\<open>pages.forEach(page => ... page.id ...)\<close>: reading a member of a null entry throws.\<close>

fun log_each_page :: "json list \<Rightarrow> js_exn + unit" where
  "log_each_page [] = Inr ()"
| "log_each_page (page # ps) =
     (case get_member (Some page) ''id'' of Inl e \<Rightarrow> Inl e | Inr _ \<Rightarrow> log_each_page ps)"

definition forEach_page :: "json \<Rightarrow> js_exn + unit" where
  "forEach_page pages =
     (case pages of
        JArr ps \<Rightarrow> log_each_page ps
      | _ \<Rightarrow> Inl (plain_error ''pages.forEach is not a function''))"

definition success_body :: "jsval \<Rightarrow> jsval \<Rightarrow> json \<Rightarrow> (string \<times> jsval) list" where
  "success_body access_token expires_in pages =
     [(''accessToken'', access_token), (''expiresIn'', expires_in), (''pages'', Some pages)]"

text \<open>The inner try block: the pages request, the logging, and the 200 reply.\<close>

definition pages_try ::
  "network \<Rightarrow> jsval \<Rightarrow> jsval \<Rightarrow> (js_exn + response) option \<times> request list" where
  "pages_try net access_token expires_in =
     (case axios_get net (pages_request access_token) of
        None \<Rightarrow> (None, [pages_request access_token])
      | Some (Rejects e) \<Rightarrow> (Some (Inl e), [pages_request access_token])
      | Some (Resolves d) \<Rightarrow>
          (case get_member d ''data'' of
             Inl e \<Rightarrow> (Some (Inl e), [pages_request access_token])
           | Inr pd \<Rightarrow>
               let pages = or_else pd (JArr []) in
               if js_prop pages ''length'' = Some (JNum 0) then
                 (case map_option swallow (user_details net access_token) of
                    None \<Rightarrow>
                      (None, [pages_request access_token, user_request access_token])
                  | Some _ \<Rightarrow>
                      (case map_option swallow (token_permissions net access_token) of
                         None \<Rightarrow>
                           (None, [pages_request access_token, user_request access_token,
                                   permissions_request access_token])
                       | Some _ \<Rightarrow>
                           (Some (Inr (reply 200 (success_body access_token expires_in pages))),
                            [pages_request access_token, user_request access_token,
                             permissions_request access_token])))
               else
                 (case forEach_page pages of
                    Inl e \<Rightarrow> (Some (Inl e), [pages_request access_token])
                  | Inr _ \<Rightarrow>
                      (Some (Inr (reply 200 (success_body access_token expires_in pages))),
                       [pages_request access_token]))))"

text \<open>The outer try block, with the catch of the inner one.\<close>

definition exchange_try ::
  "network \<Rightarrow> string \<Rightarrow> string \<Rightarrow> string \<Rightarrow> (js_exn + response) option \<times> request list" where
  "exchange_try net client_id client_secret code =
     (let tok = token_request client_id client_secret code in
      case axios_get net tok of
        None \<Rightarrow> (None, [tok])
      | Some (Rejects e) \<Rightarrow> (Some (Inl e), [tok])
      | Some (Resolves data) \<Rightarrow>
          (case get_member data ''access_token'' of
             Inl e \<Rightarrow> (Some (Inl e), [tok])
           | Inr access_token \<Rightarrow>
               if \<not> truthy access_token then
                 (Some (Inr (reply 400 [(''error'', Some (JStr ''Failed to retrieve access token''))])),
                  [tok])
               else
                 let expires_in = opt_member data ''expires_in'' in
                 case pages_try net access_token expires_in of
                   (None, reqs) \<Rightarrow> (None, tok # reqs)
                 | (Some (Inr r), reqs) \<Rightarrow> (Some (Inr r), tok # reqs)
                 | (Some (Inl pagesError), reqs) \<Rightarrow>
                     (Some (Inr (reply 200
                        [(''accessToken'', access_token),
                         (''expiresIn'', expires_in),
                         (''pages'', Some (JArr [])),
                         (''pagesError'', Some (JStr ''Failed to fetch pages'')),
                         (''errorDetails'',
                            js_or (opt_member (response_data pagesError) ''error'')
                                  (Some (JStr (message pagesError))))])),
                      tok # reqs)))"

definition query_code :: "event \<Rightarrow> string option" where
  "query_code ev = (case queryStringParameters ev of None \<Rightarrow> None | Some q \<Rightarrow> map_of q ''code'')"

definition missing_code :: response where
  "missing_code = reply 400 [(''error'', Some (JStr ''Missing code parameter''))]"

definition configuration_error :: response where
  "configuration_error = reply 500 [(''error'', Some (JStr ''Server configuration error''))]"

text \<open>
  \<^verbatim>\<open>!code\<close> holds for an absent and for an empty \<^verbatim>\<open>code\<close>; likewise for the two
  environment variables.
\<close>

definition exchange_handler ::
  "exchange_env \<Rightarrow> network \<Rightarrow> event \<Rightarrow> response option \<times> request list" where
  "exchange_handler env net ev =
     (if httpMethod ev = ''OPTIONS'' then (Some preflight_reply, [])
      else
        case query_code ev of
          None \<Rightarrow> (Some missing_code, [])
        | Some code \<Rightarrow>
            if code = [] then (Some missing_code, [])
            else
              (case (appId env, appSecret env) of
                 (Some client_id, Some client_secret) \<Rightarrow>
                   if client_id = [] \<or> client_secret = [] then (Some configuration_error, [])
                   else
                     (case exchange_try net client_id client_secret code of
                        (None, reqs) \<Rightarrow> (None, reqs)
                      | (Some (Inr r), reqs) \<Rightarrow> (Some r, reqs)
                      | (Some (Inl error), reqs) \<Rightarrow>
                          (Some (reply 500
                             [(''error'',
                                 js_or (opt_member (opt_member (response_data error) ''error'') ''message'')
                                   (js_or (Some (JStr (message error)))
                                      (Some (JStr ''Server error during token exchange''))))]),
                           reqs))
               | _ \<Rightarrow> (Some configuration_error, [])))"

section \<open>The session client (src/lib/supabase.ts)\<close>

text \<open>
  What the client library hands out: a session with its user, and the answer of
  \<^verbatim>\<open>auth.getSession()\<close> and \<^verbatim>\<open>auth.refreshSession()\<close>, an object with the session
  (or null) under \<^verbatim>\<open>data\<close> and an error (or null).
\<close>

record auth_user =
  user_id :: string
  user_email :: "string option"
  user_metadata_role :: jsval
  user_created_at :: "string option"

record session =
  session_user :: "auth_user option"
  session_expires_at :: "int option"

record auth_result =
  data_session :: "session option"
  auth_error :: "js_exn option"

text \<open>
  Time is virtual, in whole milliseconds (natural numbers, as are the two parameters of
  \<^verbatim>\<open>getSessionWithRetry\<close>): an asynchronous call settles after some duration or never does,
  and computation takes no time. A timer set with \<^verbatim>\<open>setTimeout(f, ms)\<close> fires after \<open>ms\<close>
  milliseconds; the runtime sets a delay below 1 or above \<open>2^31 - 1\<close> to 1.
\<close>

datatype 'a async = After nat "'a settled" | Pending

definition setTimeout_delay :: "nat \<Rightarrow> nat" where
  "setTimeout_delay ms = (if ms < 1 \<or> 2147483647 < ms then 1 else ms)"

text \<open>
  \<^verbatim>\<open>getSessionWithTimeout\<close>: the race of the session lookup against a timer. The result is
  the time the race takes and how it settles; the timer, set first, wins a tie. The lookup that
  lost the race is not cancelled, its later answer is ignored.
\<close>

definition getSessionWithTimeout :: "nat \<Rightarrow> auth_result async \<Rightarrow> nat \<times> auth_result settled" where
  "getSessionWithTimeout timeoutMs call =
     (let timed_out =
        (setTimeout_delay timeoutMs,
         Rejects (plain_error (''Session check timed out after '' @ show_nat timeoutMs @ ''ms'')))
      in case call of
           Pending \<Rightarrow> timed_out
         | After d out \<Rightarrow> if d < setTimeout_delay timeoutMs then (d, out) else timed_out)"

text \<open>
  One entry per attempt of \<^verbatim>\<open>getSessionWithRetry\<close>: its number, the elapsed time at which
  it started, how it settled, and the time waited after it (none when it returned the session).
\<close>

record attempt_entry =
  att_number :: nat
  att_start :: nat
  att_outcome :: "auth_result settled"
  att_delay :: "nat option"

record retry_outcome =
  returned :: "js_exn + auth_result"
  finished_at :: nat
  attempts :: "attempt_entry list"

text \<open>
  The while loop. \<open>getSession k\<close> is how the lookup of attempt \<open>k\<close> behaves; \<open>elapsed\<close> is
  \<^verbatim>\<open>Date.now() - startTime\<close>. Every iteration waits on a timer, so at least one millisecond
  passes and the loop ends.
\<close>

function retry_loop ::
  "nat \<Rightarrow> nat \<Rightarrow> (nat \<Rightarrow> auth_result async) \<Rightarrow> nat \<Rightarrow> nat \<Rightarrow> js_exn option \<Rightarrow>
   attempt_entry list \<Rightarrow> retry_outcome" where
  "retry_loop maxTimeMs initialDelayMs getSession elapsed attempt lastError log =
     (if elapsed < maxTimeMs then
        (case getSessionWithTimeout 5000 (getSession attempt) of
           (d, Resolves result) \<Rightarrow>
             if data_session result \<noteq> None then
               \<lparr>returned = Inr result, finished_at = elapsed + d,
                attempts = log @ [\<lparr>att_number = attempt, att_start = elapsed,
                                    att_outcome = Resolves result, att_delay = None\<rparr>]\<rparr>
             else
               let delay = min (initialDelayMs * attempt) 2000 in
               retry_loop maxTimeMs initialDelayMs getSession
                 (elapsed + d + setTimeout_delay delay) (attempt + 1) lastError
                 (log @ [\<lparr>att_number = attempt, att_start = elapsed,
                           att_outcome = Resolves result,
                           att_delay = Some (setTimeout_delay delay)\<rparr>])
         | (d, Rejects error) \<Rightarrow>
             retry_loop maxTimeMs initialDelayMs getSession
               (elapsed + d + setTimeout_delay initialDelayMs) (attempt + 1) (Some error)
               (log @ [\<lparr>att_number = attempt, att_start = elapsed,
                         att_outcome = Rejects error,
                         att_delay = Some (setTimeout_delay initialDelayMs)\<rparr>]))
      else
        \<lparr>returned =
           Inl (case lastError of
                  Some e \<Rightarrow> e
                | None \<Rightarrow> plain_error (''Session check failed after '' @ show_nat maxTimeMs @ ''ms'')),
         finished_at = elapsed, attempts = log\<rparr>)"
  by pat_completeness auto
termination
proof (relation "measure (\<lambda>(maxTimeMs, initialDelayMs, getSession, elapsed, attempt, lastError, log).
        maxTimeMs - elapsed)", goal_cases)
  case 1
  show ?case by simp
next
  case (2 maxTimeMs initialDelayMs getSession elapsed attempt lastError log x y x1 xa)
  have "0 < setTimeout_delay xa" by (simp add: setTimeout_delay_def)
  with 2(1) show ?case by simp
next
  case (3 maxTimeMs initialDelayMs getSession elapsed attempt lastError log x y x2)
  have "0 < setTimeout_delay initialDelayMs" by (simp add: setTimeout_delay_def)
  with 3(1) show ?case by simp
qed

declare retry_loop.simps [simp del]

definition getSessionWithRetry ::
  "nat \<Rightarrow> nat \<Rightarrow> (nat \<Rightarrow> auth_result async) \<Rightarrow> retry_outcome" where
  "getSessionWithRetry maxTimeMs initialDelayMs getSession =
     retry_loop maxTimeMs initialDelayMs getSession 0 1 None []"

text \<open>
  \<^verbatim>\<open>new Date(ms).toISOString()\<close> throws a RangeError on an invalid date: \<open>ms\<close> not a number
  (here: computed from an undefined \<^verbatim>\<open>expires_at\<close>) or beyond the range of dates.
\<close>

definition toISOString :: "int option \<Rightarrow> js_exn + unit" where
  "toISOString ms =
     (case ms of
        None \<Rightarrow> Inl (plain_error ''Invalid time value'')
      | Some t \<Rightarrow> if \<bar>t\<bar> \<le> 8640000000000000 then Inr () else Inl (plain_error ''Invalid time value''))"

text \<open>
  The state of the auth client is its cached session. \<^verbatim>\<open>auth.refreshSession()\<close> is a call
  into the library: it settles in some way and leaves the client in some state.
  \<open>navigator\<close> is \<open>None\<close> where \<^verbatim>\<open>navigator\<close> is undefined, and \<^verbatim>\<open>navigator.onLine\<close> otherwise.
\<close>

record client_state =
  cached_session :: "session option"

type_synonym refresh_call = "client_state \<Rightarrow> auth_result settled \<times> client_state"

definition refresh_try ::
  "bool option \<Rightarrow> refresh_call \<Rightarrow> client_state \<Rightarrow> (js_exn + bool) \<times> client_state" where
  "refresh_try navigator refreshSession st =
     (if (case navigator of None \<Rightarrow> False | Some onLine \<Rightarrow> \<not> onLine) then (Inr False, st)
      else
        case refreshSession st of
          (Rejects e, st') \<Rightarrow> (Inl e, st')
        | (Resolves r, st') \<Rightarrow>
            if auth_error r \<noteq> None then (Inr False, st')
            else
              (case data_session r of
                 None \<Rightarrow> (Inr False, st')
               | Some s \<Rightarrow>
                   (case toISOString (map_option (\<lambda>t. t * 1000) (session_expires_at s)) of
                      Inl e \<Rightarrow> (Inl e, st')
                    | Inr _ \<Rightarrow> (Inr True, st'))))"

definition refreshSupabaseToken ::
  "bool option \<Rightarrow> refresh_call \<Rightarrow> client_state \<Rightarrow> (js_exn + bool) \<times> client_state" where
  "refreshSupabaseToken navigator refreshSession st =
     (case refresh_try navigator refreshSession st of
        (Inl error, st') \<Rightarrow> (Inr False, st')
      | (Inr b, st') \<Rightarrow> (Inr b, st'))"

section \<open>Authentication helpers (src/lib/auth.ts)\<close>

definition refreshAuthToken ::
  "bool option \<Rightarrow> refresh_call \<Rightarrow> client_state \<Rightarrow> (js_exn + bool) \<times> client_state" where
  "refreshAuthToken navigator refreshSession st =
     (case refreshSupabaseToken navigator refreshSession st of
        (Inl error, st') \<Rightarrow> (Inr False, st')
      | (Inr b, st') \<Rightarrow> (Inr b, st'))"

text \<open>
  The environment of \<^verbatim>\<open>getCurrentUser\<close>: the session lookup, the read of the user's row
  in \<^verbatim>\<open>users\<close> (\<^verbatim>\<open>.single()\<close> answers with a row object or null, and an error or null),
  the synchronous part of the update that is started and not awaited (\<open>Some e\<close> when building
  the call throws), and the clock as an ISO string.
\<close>

record row_result =
  row_data :: "(string \<times> json) list option"
  row_error :: "js_exn option"

record auth_env =
  getSession :: "auth_result settled"
  users_single :: "string \<Rightarrow> row_result settled"
  users_update :: "string \<Rightarrow> js_exn option"
  now_iso :: string

text \<open>A \<^verbatim>\<open>User\<close> value is the list of its members.\<close>

type_synonym user = "(string \<times> json) list"

definition minimalUser :: "auth_env \<Rightarrow> auth_user \<Rightarrow> user" where
  "minimalUser env u =
     [(''id'', JStr (user_id u)),
      (''email'', JStr (case user_email u of None \<Rightarrow> [] | Some e \<Rightarrow> e)),
      (''role'', or_else (user_metadata_role u) (JStr ''customer'')),
      (''created_at'',
         JStr (case user_created_at u of
                 None \<Rightarrow> now_iso env
               | Some c \<Rightarrow> if c = [] then now_iso env else c)),
      (''isAuthenticated'', JBool True)]"

text \<open>\<^verbatim>\<open>{...userData, isAuthenticated: true}\<close>.\<close>

fun set_member :: "string \<Rightarrow> json \<Rightarrow> (string \<times> json) list \<Rightarrow> (string \<times> json) list" where
  "set_member k v [] = [(k, v)]"
| "set_member k v ((k', v') # kvs) =
     (if k' = k then (k, v) # kvs else (k', v') # set_member k v kvs)"

text \<open>The inner try block (the read of the row) with its catch.\<close>

definition enrich :: "auth_env \<Rightarrow> auth_user \<Rightarrow> user" where
  "enrich env u =
     (case users_single env (user_id u) of
        Rejects e \<Rightarrow> minimalUser env u
      | Resolves r \<Rightarrow>
          if row_error r \<noteq> None then minimalUser env u
          else
            (case row_data r of
               Some userData \<Rightarrow>
                 (case users_update env (user_id u) of
                    Some e \<Rightarrow> minimalUser env u
                  | None \<Rightarrow> set_member ''isAuthenticated'' (JBool True) userData)
             | None \<Rightarrow> minimalUser env u))"

text \<open>The outer try block, and the function with its catch.\<close>

definition getCurrentUser_try :: "auth_env \<Rightarrow> js_exn + user option" where
  "getCurrentUser_try env =
     (case getSession env of
        Rejects e \<Rightarrow> Inl e
      | Resolves r \<Rightarrow>
          if auth_error r \<noteq> None then Inr None
          else
            (case data_session r of
               None \<Rightarrow> Inr None
             | Some s \<Rightarrow>
                 (case session_user s of
                    None \<Rightarrow> Inr None
                  | Some u \<Rightarrow> Inr (Some (enrich env u)))))"

definition getCurrentUser :: "auth_env \<Rightarrow> js_exn + user option" where
  "getCurrentUser env =
     (case getCurrentUser_try env of
        Inl error \<Rightarrow> Inr None
      | Inr u \<Rightarrow> Inr u)"

section \<open>Observations and example environments\<close>

text \<open>The errors caught by the attempts of a run, oldest first.\<close>

fun observed_errors :: "attempt_entry list \<Rightarrow> js_exn list" where
  "observed_errors [] = []"
| "observed_errors (a # as) =
     (case att_outcome a of
        Rejects e \<Rightarrow> e # observed_errors as
      | Resolves r \<Rightarrow> observed_errors as)"

text \<open>When the race of an attempt settles, counted from the start of the run.\<close>

definition settled_at :: "(nat \<Rightarrow> auth_result async) \<Rightarrow> attempt_entry \<Rightarrow> nat" where
  "settled_at lookup a = att_start a + fst (getSessionWithTimeout 5000 (lookup (att_number a)))"

text \<open>The time the loop waits after an attempt, by how the attempt settled.\<close>

definition waited :: "nat \<Rightarrow> attempt_entry \<Rightarrow> nat" where
  "waited initialDelayMs a =
     (case att_outcome a of
        Rejects e \<Rightarrow> setTimeout_delay initialDelayMs
      | Resolves r \<Rightarrow> setTimeout_delay (min (initialDelayMs * att_number a) 2000))"

text \<open>A lookup that fails after 100 ms, every time.\<close>

definition always_failing :: "nat \<Rightarrow> auth_result async" where
  "always_failing k = After 100 (Rejects (plain_error ''Failed to fetch''))"

text \<open>A lookup that answers without a session after 10 ms, every time.\<close>

definition never_signed_in :: "nat \<Rightarrow> auth_result async" where
  "never_signed_in k = After 10 (Resolves \<lparr>data_session = None, auth_error = None\<rparr>)"

text \<open>A lookup whose first call answers after nine seconds and whose later calls hang.\<close>

definition slow_first :: "nat \<Rightarrow> auth_result async" where
  "slow_first k =
     (if k = 1 then After 9000 (Resolves \<lparr>data_session = None, auth_error = None\<rparr>) else Pending)"

text \<open>A lookup that finds the session at the third attempt.\<close>

definition bare_session :: session where
  "bare_session = \<lparr>session_user = None, session_expires_at = Some 1700003600\<rparr>"

definition third_time_lucky :: "nat \<Rightarrow> auth_result async" where
  "third_time_lucky k =
     (if k = 1 then After 50 (Resolves \<lparr>data_session = None, auth_error = None\<rparr>)
      else if k = 2 then After 70 (Rejects (plain_error ''Failed to fetch''))
      else After 30 (Resolves \<lparr>data_session = Some bare_session, auth_error = None\<rparr>))"

text \<open>A store with one session that expired an hour ago and one that expires in an hour.\<close>

definition configured :: cleanup_env where
  "configured = \<lparr>supabaseUrl = Some ''https://db.example'', supabaseServiceKey = Some ''service-key''\<rparr>"

definition two_sessions :: world where
  "two_sessions =
     \<lparr>rows = [\<lparr>row_id = 1, expires_at = 1700000000000 - 3600000\<rparr>,
              \<lparr>row_id = 2, expires_at = 1700000000000 + 3600000\<rparr>],
      store_error = None, now = 1700000000000, clock_reads = 0, deletes = []\<rparr>"

definition scheduled :: event where
  "scheduled = \<lparr>httpMethod = ''POST'', queryStringParameters = None\<rparr>"

definition preflight :: event where
  "preflight = \<lparr>httpMethod = ''OPTIONS'', queryStringParameters = None\<rparr>"

text \<open>The same store while it refuses every request.\<close>

definition store_down :: world where
  "store_down = two_sessions\<lparr>store_error := Some ''connection refused''\<rparr>"

text \<open>
  When the lookup of an attempt answers, counted from the start of the run (never, for \<open>None\<close>),
  whether or not the race was still waiting for it.
\<close>

definition lookup_answers_at :: "(nat \<Rightarrow> auth_result async) \<Rightarrow> attempt_entry \<Rightarrow> nat option" where
  "lookup_answers_at lookup a =
     (case lookup (att_number a) of After d out \<Rightarrow> Some (att_start a + d) | Pending \<Rightarrow> None)"

text \<open>The runs of these lookups that the examples below use.\<close>

definition always_failing_run :: retry_outcome where
  "always_failing_run =
     \<lparr>returned = Inl (plain_error ''Failed to fetch''), finished_at = 1800,
      attempts =
        [\<lparr>att_number = 1, att_start = 0,
          att_outcome = Rejects (plain_error ''Failed to fetch''), att_delay = Some 500\<rparr>,
         \<lparr>att_number = 2, att_start = 600,
          att_outcome = Rejects (plain_error ''Failed to fetch''), att_delay = Some 500\<rparr>,
         \<lparr>att_number = 3, att_start = 1200,
          att_outcome = Rejects (plain_error ''Failed to fetch''), att_delay = Some 500\<rparr>]\<rparr>"

definition never_signed_in_run :: retry_outcome where
  "never_signed_in_run =
     \<lparr>returned = Inl (plain_error ''Session check failed after 3000ms''), finished_at = 4730,
      attempts =
        [\<lparr>att_number = 1, att_start = 0,
          att_outcome = Resolves \<lparr>data_session = None, auth_error = None\<rparr>,
          att_delay = Some 900\<rparr>,
         \<lparr>att_number = 2, att_start = 910,
          att_outcome = Resolves \<lparr>data_session = None, auth_error = None\<rparr>,
          att_delay = Some 1800\<rparr>,
         \<lparr>att_number = 3, att_start = 2720,
          att_outcome = Resolves \<lparr>data_session = None, auth_error = None\<rparr>,
          att_delay = Some 2000\<rparr>]\<rparr>"

definition slow_first_run :: retry_outcome where
  "slow_first_run =
     \<lparr>returned = Inl (plain_error ''Session check timed out after 5000ms''), finished_at = 11200,
      attempts =
        [\<lparr>att_number = 1, att_start = 0,
          att_outcome = Rejects (plain_error ''Session check timed out after 5000ms''),
          att_delay = Some 600\<rparr>,
         \<lparr>att_number = 2, att_start = 5600,
          att_outcome = Rejects (plain_error ''Session check timed out after 5000ms''),
          att_delay = Some 600\<rparr>]\<rparr>"

definition third_time_lucky_run :: retry_outcome where
  "third_time_lucky_run =
     \<lparr>returned = Inr \<lparr>data_session = Some bare_session, auth_error = None\<rparr>, finished_at = 1150,
      attempts =
        [\<lparr>att_number = 1, att_start = 0,
          att_outcome = Resolves \<lparr>data_session = None, auth_error = None\<rparr>,
          att_delay = Some 500\<rparr>,
         \<lparr>att_number = 2, att_start = 550,
          att_outcome = Rejects (plain_error ''Failed to fetch''),
          att_delay = Some 500\<rparr>,
         \<lparr>att_number = 3, att_start = 1120,
          att_outcome = Resolves \<lparr>data_session = Some bare_session, auth_error = None\<rparr>,
          att_delay = None\<rparr>]\<rparr>"

text \<open>A member of the JSON body of a response: undefined when the body or the member is missing.\<close>

definition body_member :: "response \<Rightarrow> string \<Rightarrow> jsval" where
  "body_member r k = (case body r of None \<Rightarrow> None | Some b \<Rightarrow> map_of b k)"

text \<open>The same for a reply that may be missing.\<close>

definition replied_member :: "response option \<Rightarrow> string \<Rightarrow> jsval" where
  "replied_member r k = (case r of None \<Rightarrow> None | Some x \<Rightarrow> body_member x k)"

text \<open>Environments, requests and networks for the token exchange.\<close>

definition configured_app :: exchange_env where
  "configured_app = \<lparr>appId = Some ''1234567890'', appSecret = Some ''app-secret''\<rparr>"

definition no_secret :: exchange_env where
  "no_secret = \<lparr>appId = Some ''1234567890'', appSecret = None\<rparr>"

definition callback :: event where
  "callback = \<lparr>httpMethod = ''GET'', queryStringParameters = Some [(''code'', ''abc123'')]\<rparr>"

definition no_code :: event where
  "no_code = \<lparr>httpMethod = ''GET'', queryStringParameters = Some []\<rparr>"

definition token_data :: json where
  "token_data = JObj [(''access_token'', JStr ''T1''), (''token_type'', JStr ''bearer''),
                      (''expires_in'', JNum 3600)]"

definition shop_page :: json where
  "shop_page = JObj [(''id'', JStr ''p1''), (''name'', JStr ''Shop''),
                     (''access_token'', JStr ''PT1''), (''category'', JStr ''Retail''),
                     (''tasks'', JArr [JStr ''MANAGE''])]"

definition pages_url :: string where
  "pages_url = ''https://graph.facebook.com/v18.0/me/accounts''"

definition offline :: network where
  "offline r = Some (Rejects (plain_error ''Network Error''))"

text \<open>The token endpoint answers; every other request is refused by the provider.\<close>

definition token_only :: network where
  "token_only r =
     (if url r = tokenExchangeUrl then Some (Resolves (Some token_data))
      else Some (Rejects \<lparr>message = ''Request failed with status code 400'',
                          response_data = Some (JObj [(''error'', JObj [(''message'', JStr ''Unsupported get request'')])])\<rparr>))"

text \<open>Networks whose pages answer lists no page, one page, and a null entry.\<close>

definition no_pages :: network where
  "no_pages r =
     (if url r = tokenExchangeUrl then Some (Resolves (Some token_data))
      else if url r = pages_url then Some (Resolves (Some (JObj [(''data'', JArr [])])))
      else Some (Rejects (plain_error ''Network Error'')))"

definition one_page :: network where
  "one_page r =
     (if url r = tokenExchangeUrl then Some (Resolves (Some token_data))
      else if url r = pages_url then Some (Resolves (Some (JObj [(''data'', JArr [shop_page])])))
      else Some (Rejects (plain_error ''Network Error'')))"

definition null_page :: network where
  "null_page r =
     (if url r = tokenExchangeUrl then Some (Resolves (Some token_data))
      else if url r = pages_url then Some (Resolves (Some (JObj [(''data'', JArr [JNull])])))
      else Some (Rejects (plain_error ''Network Error'')))"

text \<open>No page, and the diagnostic requests are never answered.\<close>

definition silent_diagnostics :: network where
  "silent_diagnostics r =
     (if url r = tokenExchangeUrl then Some (Resolves (Some token_data))
      else if url r = pages_url then Some (Resolves (Some (JObj [(''data'', JArr [])])))
      else None)"

text \<open>
  A refresh that fails and logs the client out; a user whose row cannot be read, and the same
  user with a row.
\<close>

definition signs_out :: refresh_call where
  "signs_out st =
     (Resolves \<lparr>data_session = None, auth_error = Some (plain_error ''Invalid Refresh Token'')\<rparr>,
      \<lparr>cached_session = None\<rparr>)"

definition signed_in :: client_state where
  "signed_in = \<lparr>cached_session = Some bare_session\<rparr>"

definition jane :: auth_user where
  "jane = \<lparr>user_id = ''u-1'', user_email = Some ''jane@example.org'',
           user_metadata_role = None, user_created_at = Some ''2024-01-01T00:00:00.000Z''\<rparr>"

definition table_down :: auth_env where
  "table_down =
     \<lparr>getSession = Resolves \<lparr>data_session = Some \<lparr>session_user = Some jane,
                                                   session_expires_at = Some 1700003600\<rparr>,
                             auth_error = None\<rparr>,
      users_single = (\<lambda>i. Rejects (plain_error ''Failed to fetch'')),
      users_update = (\<lambda>i. None),
      now_iso = ''2024-06-01T12:00:00.000Z''\<rparr>"

definition jane_row :: "(string \<times> json) list" where
  "jane_row = [(''id'', JStr ''u-1''), (''email'', JStr ''jane@example.org''),
               (''role'', JStr ''admin''), (''isAuthenticated'', JBool False)]"

definition table_up :: auth_env where
  "table_up =
     table_down\<lparr>users_single := (\<lambda>i. Resolves \<lparr>row_data = Some jane_row, row_error = None\<rparr>)\<rparr>"

section \<open>Rendering of numbers\<close>

lemma show_nat_0: "show_nat 0 = ''0''"
  by (simp add: show_nat.simps digit_char_def)

lemma show_nat_1: "show_nat (Suc 0) = ''1''"
  by (simp add: show_nat.simps digit_char_def)

lemma show_nat_3000: "show_nat 3000 = ''3000''"
  by (simp add: show_nat.simps digit_char_def)

lemma show_nat_5000: "show_nat 5000 = ''5000''"
  by (simp add: show_nat.simps digit_char_def)

section \<open>The session cleanup function: what a run does\<close>

lemma cleanup_handler_200_iff:
  "statusCode (fst (cleanup_handler env ev w)) = 200 \<longleftrightarrow>
     httpMethod ev \<noteq> ''OPTIONS'' \<and> supabase_client env \<and> store_error w = None"
  by (auto simp: cleanup_handler_def cleanupExpiredSessions_def read_clock_def delete_lt_def
        reply_def preflight_reply_def Let_def split: option.splits)

lemma cleanup_handler_success:
  assumes "httpMethod ev \<noteq> ''OPTIONS''" "supabase_client env" "store_error w = None"
  shows "cleanup_handler env ev w =
     (reply 200
        [(''status'', Some (JStr ''success'')),
         (''message'', Some (JStr (''Cleaned up '' @
             show_nat (length (filter (\<lambda>r. expires_at r < now w) (rows w))) @ '' expired sessions'')))],
      w\<lparr>clock_reads := Suc (clock_reads w), deletes := deletes w @ [now w],
        rows := filter (\<lambda>r. \<not> expires_at r < now w) (rows w)\<rparr>)"
  using assms
  by (simp add: cleanup_handler_def cleanupExpiredSessions_def read_clock_def delete_lt_def Let_def)

lemma cleanup_clock_reads_le:
  "clock_reads (snd (cleanup_handler env ev w)) \<le> Suc (clock_reads w)"
  by (auto simp: cleanup_handler_def cleanupExpiredSessions_def read_clock_def delete_lt_def
        Let_def split: option.splits)

lemma stringify_all_Some:
  "stringify [(k1, Some v1), (k2, Some v2)] = [(k1, v1), (k2, v2)]"
  by (simp add: stringify_def List.map_filter_simps)

text \<open>
  Claim C5, as the code has it. No invocation reads the clock more than once. An invocation
  that answers 200 has read the clock exactly once, has issued one delete whose cutoff is that
  reading, has removed exactly the rows whose \<open>expires_at\<close> is strictly less than the cutoff
  (a row at or after the cutoff stays), and reports the number of removed rows in
  \<^verbatim>\<open>Cleaned up N expired sessions\<close>. With one row that expired an hour ago and one that
  expires in an hour, a run that is not a preflight, has a store client and whose delete is
  performed removes only the expired row and reports 1.
\<close>

theorem cleanup_sweeps_expired_rows:
  "clock_reads (snd (cleanup_handler env ev w)) \<le> Suc (clock_reads w) \<and>
   (statusCode (fst (cleanup_handler env ev w)) = 200 \<longrightarrow>
      clock_reads (snd (cleanup_handler env ev w)) = Suc (clock_reads w) \<and>
      deletes (snd (cleanup_handler env ev w)) = deletes w @ [now w] \<and>
      rows (snd (cleanup_handler env ev w)) = filter (\<lambda>r. \<not> expires_at r < now w) (rows w) \<and>
      body (fst (cleanup_handler env ev w)) =
        Some [(''status'', JStr ''success''),
              (''message'', JStr (''Cleaned up '' @
                 show_nat (length (filter (\<lambda>r. expires_at r < now w) (rows w))) @
                 '' expired sessions''))]) \<and>
   (httpMethod ev \<noteq> ''OPTIONS'' \<and> supabase_client env \<and> store_error w = None \<and>
    rows w = [\<lparr>row_id = i, expires_at = now w - 3600000\<rparr>,
              \<lparr>row_id = j, expires_at = now w + 3600000\<rparr>] \<longrightarrow>
      statusCode (fst (cleanup_handler env ev w)) = 200 \<and>
      rows (snd (cleanup_handler env ev w)) = [\<lparr>row_id = j, expires_at = now w + 3600000\<rparr>] \<and>
      body (fst (cleanup_handler env ev w)) =
        Some [(''status'', JStr ''success''),
              (''message'', JStr ''Cleaned up 1 expired sessions'')])"
proof (intro conjI impI)
  show "clock_reads (snd (cleanup_handler env ev w)) \<le> Suc (clock_reads w)"
    by (rule cleanup_clock_reads_le)
next
  assume ok: "statusCode (fst (cleanup_handler env ev w)) = 200"
  then have h: "httpMethod ev \<noteq> ''OPTIONS''" "supabase_client env" "store_error w = None"
    by (simp_all add: cleanup_handler_200_iff)
  note eq = cleanup_handler_success[OF h]
  show "clock_reads (snd (cleanup_handler env ev w)) = Suc (clock_reads w)"
    by (simp add: eq)
  show "deletes (snd (cleanup_handler env ev w)) = deletes w @ [now w]"
    by (simp add: eq)
  show "rows (snd (cleanup_handler env ev w)) = filter (\<lambda>r. \<not> expires_at r < now w) (rows w)"
    by (simp add: eq)
  show "body (fst (cleanup_handler env ev w)) =
        Some [(''status'', JStr ''success''),
              (''message'', JStr (''Cleaned up '' @
                 show_nat (length (filter (\<lambda>r. expires_at r < now w) (rows w))) @
                 '' expired sessions''))]"
    by (simp add: eq reply_def stringify_all_Some)
next
  assume a: "httpMethod ev \<noteq> ''OPTIONS'' \<and> supabase_client env \<and> store_error w = None \<and>
    rows w = [\<lparr>row_id = i, expires_at = now w - 3600000\<rparr>,
              \<lparr>row_id = j, expires_at = now w + 3600000\<rparr>]"
  then have h: "httpMethod ev \<noteq> ''OPTIONS''" "supabase_client env" "store_error w = None"
    by simp_all
  note eq = cleanup_handler_success[OF h]
  from a have r: "rows w = [\<lparr>row_id = i, expires_at = now w - 3600000\<rparr>,
              \<lparr>row_id = j, expires_at = now w + 3600000\<rparr>]" by simp
  show "statusCode (fst (cleanup_handler env ev w)) = 200"
    by (simp add: eq reply_def)
  show "rows (snd (cleanup_handler env ev w)) = [\<lparr>row_id = j, expires_at = now w + 3600000\<rparr>]"
    by (simp add: eq r)
  show "body (fst (cleanup_handler env ev w)) =
        Some [(''status'', JStr ''success''),
              (''message'', JStr ''Cleaned up 1 expired sessions'')]"
    by (simp add: eq r reply_def stringify_all_Some show_nat_1)
qed

theorem cleanup_sweeps_expired_rows_witness:
  "statusCode (fst (cleanup_handler configured scheduled two_sessions)) = 200 \<and>
   clock_reads (snd (cleanup_handler configured scheduled two_sessions)) = 1 \<and>
   deletes (snd (cleanup_handler configured scheduled two_sessions)) = [1700000000000] \<and>
   rows (snd (cleanup_handler configured scheduled two_sessions)) =
     [\<lparr>row_id = 2, expires_at = 1700003600000\<rparr>] \<and>
   body (fst (cleanup_handler configured scheduled two_sessions)) =
     Some [(''status'', JStr ''success''), (''message'', JStr ''Cleaned up 1 expired sessions'')]"
proof -
  have h: "httpMethod scheduled \<noteq> ''OPTIONS'' \<and> supabase_client configured \<and>
      store_error two_sessions = None \<and>
      rows two_sessions = [\<lparr>row_id = 1, expires_at = now two_sessions - 3600000\<rparr>,
              \<lparr>row_id = 2, expires_at = now two_sessions + 3600000\<rparr>]"
    by (simp add: scheduled_def configured_def two_sessions_def supabase_client_def)
  from cleanup_sweeps_expired_rows[of configured scheduled two_sessions 1 2] h
  show ?thesis
    by (simp add: two_sessions_def)
qed

text \<open>
  Claim C5 as stated speaks of every invocation. An \<^verbatim>\<open>OPTIONS\<close> invocation is answered
  with 204 before the cleanup runs: the clock is not read and the expired row stays.
\<close>

theorem cleanup_preflight_counterexample:
  "cleanup_handler configured preflight two_sessions = (preflight_reply, two_sessions) \<and>
   statusCode preflight_reply = 204 \<and>
   clock_reads two_sessions = 0 \<and>
   rows two_sessions = [\<lparr>row_id = 1, expires_at = 1699996400000\<rparr>,
                        \<lparr>row_id = 2, expires_at = 1700003600000\<rparr>] \<and>
   now two_sessions = 1700000000000"
  by (simp add: cleanup_handler_def preflight_def two_sessions_def preflight_reply_def)

text \<open>
  Claim C6, as the code has it. After an invocation that answered 200, a second invocation
  on the same rows that is not a preflight and whose delete is performed, with no row whose
  expiry lies between the two cutoffs, removes no row and answers 200 with
  \<^verbatim>\<open>Cleaned up 0 expired sessions\<close>.
\<close>

theorem cleanup_second_run_deletes_nothing:
  assumes first: "cleanup_handler env ev w = (r1, w1)" "statusCode r1 = 200"
    and between: "rows w2 = rows w1"
    and second: "httpMethod ev2 \<noteq> ''OPTIONS''" "store_error w2 = None"
    and quiet: "\<forall>r\<in>set (rows w). \<not> (now w \<le> expires_at r \<and> expires_at r < now w2)"
  shows "statusCode (fst (cleanup_handler env ev2 w2)) = 200 \<and>
         body (fst (cleanup_handler env ev2 w2)) =
           Some [(''status'', JStr ''success''),
                 (''message'', JStr ''Cleaned up 0 expired sessions'')] \<and>
         rows (snd (cleanup_handler env ev2 w2)) = rows w2"
proof -
  from first have ok: "statusCode (fst (cleanup_handler env ev w)) = 200" by simp
  then have h: "httpMethod ev \<noteq> ''OPTIONS''" "supabase_client env" "store_error w = None"
    by (simp_all add: cleanup_handler_200_iff)
  from first cleanup_handler_success[OF h]
  have "rows w1 = filter (\<lambda>r. \<not> expires_at r < now w) (rows w)" by auto
  with between have r2: "rows w2 = filter (\<lambda>r. \<not> expires_at r < now w) (rows w)" by simp
  have none: "filter (\<lambda>r. expires_at r < now w2) (rows w2) = []"
    unfolding r2 using quiet by (auto simp: filter_empty_conv)
  then have keep: "filter (\<lambda>r. \<not> expires_at r < now w2) (rows w2) = rows w2"
    by (simp add: filter_empty_conv filter_id_conv)
  note eq = cleanup_handler_success[OF second(1) h(2) second(2)]
  show ?thesis
    by (simp add: eq none keep reply_def stringify_all_Some show_nat_0)
qed

theorem cleanup_second_run_deletes_nothing_witness:
  "statusCode (fst (cleanup_handler configured scheduled two_sessions)) = 200 \<and>
   statusCode (fst (cleanup_handler configured scheduled
      ((snd (cleanup_handler configured scheduled two_sessions))\<lparr>now := 1700000060000\<rparr>))) = 200 \<and>
   body (fst (cleanup_handler configured scheduled
      ((snd (cleanup_handler configured scheduled two_sessions))\<lparr>now := 1700000060000\<rparr>))) =
     Some [(''status'', JStr ''success''), (''message'', JStr ''Cleaned up 0 expired sessions'')] \<and>
   rows (snd (cleanup_handler configured scheduled
      ((snd (cleanup_handler configured scheduled two_sessions))\<lparr>now := 1700000060000\<rparr>))) =
     [\<lparr>row_id = 2, expires_at = 1700003600000\<rparr>]"
proof -
  have h: "httpMethod scheduled \<noteq> ''OPTIONS''" "supabase_client configured"
      "store_error two_sessions = None"
    by (simp_all add: scheduled_def configured_def two_sessions_def supabase_client_def)
  note eq = cleanup_handler_success[OF h]
  have first: "cleanup_handler configured scheduled two_sessions =
      (fst (cleanup_handler configured scheduled two_sessions),
       snd (cleanup_handler configured scheduled two_sessions))"
    by simp
  have ok: "statusCode (fst (cleanup_handler configured scheduled two_sessions)) = 200"
    by (simp add: eq reply_def)
  have r1: "rows (snd (cleanup_handler configured scheduled two_sessions)) =
      [\<lparr>row_id = 2, expires_at = 1700003600000\<rparr>]"
    by (simp add: eq) (simp add: two_sessions_def)
  have e1: "store_error (snd (cleanup_handler configured scheduled two_sessions)) = None"
    by (simp add: eq) (simp add: two_sessions_def)
  have quiet: "\<forall>r\<in>set (rows two_sessions). \<not> (now two_sessions \<le> expires_at r \<and>
      expires_at r < now ((snd (cleanup_handler configured scheduled two_sessions))\<lparr>now := 1700000060000\<rparr>))"
    by (simp add: two_sessions_def)
  from cleanup_second_run_deletes_nothing[OF first ok _ h(1) _ quiet] ok r1 e1
  show ?thesis by simp
qed

text \<open>
  Claim C6 as stated does not ask the first invocation to succeed. When the store refuses the
  first delete, that invocation answers 500 and removes nothing; the second invocation, with
  the store back and the clock where it was, removes the expired row and reports 1.
\<close>

theorem cleanup_after_failure_counterexample:
  "statusCode (fst (cleanup_handler configured scheduled store_down)) = 500 \<and>
   rows (snd (cleanup_handler configured scheduled store_down)) = rows store_down \<and>
   now (snd (cleanup_handler configured scheduled store_down)) = now store_down \<and>
   body (fst (cleanup_handler configured scheduled
      ((snd (cleanup_handler configured scheduled store_down))\<lparr>store_error := None\<rparr>))) =
     Some [(''status'', JStr ''success''), (''message'', JStr ''Cleaned up 1 expired sessions'')]"
  by (simp add: cleanup_handler_def cleanupExpiredSessions_def read_clock_def delete_lt_def
        Let_def scheduled_def configured_def supabase_client_def store_down_def two_sessions_def
        reply_def stringify_all_Some show_nat_1)

section \<open>The retry loop: invariants\<close>

text \<open>
  A rule for the loop in the style of a while rule: a property \<open>I\<close> of the loop variables
  that every iteration keeps, and a property \<open>Q\<close> of the outcome that holds at both exits.
\<close>

lemma observed_errors_append:
  "observed_errors (xs @ ys) = observed_errors xs @ observed_errors ys"
  by (induction xs) (auto split: settled.splits)

lemma setTimeout_delay_pos: "0 < setTimeout_delay ms"
  by (simp add: setTimeout_delay_def)

lemma setTimeout_delay_5000: "setTimeout_delay 5000 = 5000"
  by (simp add: setTimeout_delay_def)

lemma setTimeout_delay_capped: "setTimeout_delay (min x 2000) \<le> 2000"
  by (simp add: setTimeout_delay_def)

lemma timeout_le: "getSessionWithTimeout 5000 c = (d, out) \<Longrightarrow> d \<le> 5000"
  by (auto simp: getSessionWithTimeout_def setTimeout_delay_5000 Let_def
        split: async.splits if_splits)

lemma timeout_resolves_lt: "getSessionWithTimeout 5000 c = (d, Resolves r) \<Longrightarrow> d < 5000"
  by (auto simp: getSessionWithTimeout_def setTimeout_delay_5000 Let_def
        split: async.splits if_splits)

lemma retry_loop_rule:
  assumes init: "I el k le log"
    and rejected: "\<And>el k le log da e.
        I el k le log \<Longrightarrow> el < T \<Longrightarrow> getSessionWithTimeout 5000 (gs k) = (da, Rejects e) \<Longrightarrow>
        I (el + da + setTimeout_delay d) (k + 1) (Some e)
          (log @ [\<lparr>att_number = k, att_start = el, att_outcome = Rejects e,
                    att_delay = Some (setTimeout_delay d)\<rparr>])"
    and no_session: "\<And>el k le log da r.
        I el k le log \<Longrightarrow> el < T \<Longrightarrow> getSessionWithTimeout 5000 (gs k) = (da, Resolves r) \<Longrightarrow>
        data_session r = None \<Longrightarrow>
        I (el + da + setTimeout_delay (min (d * k) 2000)) (k + 1) le
          (log @ [\<lparr>att_number = k, att_start = el, att_outcome = Resolves r,
                    att_delay = Some (setTimeout_delay (min (d * k) 2000))\<rparr>])"
    and found: "\<And>el k le log da r.
        I el k le log \<Longrightarrow> el < T \<Longrightarrow> getSessionWithTimeout 5000 (gs k) = (da, Resolves r) \<Longrightarrow>
        data_session r \<noteq> None \<Longrightarrow>
        Q \<lparr>returned = Inr r, finished_at = el + da,
           attempts = log @ [\<lparr>att_number = k, att_start = el, att_outcome = Resolves r,
                               att_delay = None\<rparr>]\<rparr>"
    and exhausted: "\<And>el k le log.
        I el k le log \<Longrightarrow> \<not> el < T \<Longrightarrow>
        Q \<lparr>returned = Inl (case le of Some e \<Rightarrow> e
              | None \<Rightarrow> plain_error (''Session check failed after '' @ show_nat T @ ''ms'')),
           finished_at = el, attempts = log\<rparr>"
  shows "Q (retry_loop T d gs el k le log)"
  using assms
proof (induction T d gs el k le log rule: retry_loop.induct)
  case (1 T d gs el k le log)
  note init = "1.prems"(1) and rejected = "1.prems"(2) and no_session = "1.prems"(3)
    and found = "1.prems"(4) and exhausted = "1.prems"(5)
  show ?case
  proof (cases "el < T")
    case False
    have "retry_loop T d gs el k le log =
        \<lparr>returned = Inl (case le of Some e \<Rightarrow> e
              | None \<Rightarrow> plain_error (''Session check failed after '' @ show_nat T @ ''ms'')),
         finished_at = el, attempts = log\<rparr>"
      by (subst retry_loop.simps) (simp add: False)
    with exhausted[OF init False] show ?thesis by simp
  next
    case True
    obtain da res where g: "getSessionWithTimeout 5000 (gs k) = (da, res)"
      by (cases "getSessionWithTimeout 5000 (gs k)")
    show ?thesis
    proof (cases res)
      case (Rejects e)
      have "I (el + da + setTimeout_delay d) (k + 1) (Some e)
              (log @ [\<lparr>att_number = k, att_start = el, att_outcome = Rejects e,
                        att_delay = Some (setTimeout_delay d)\<rparr>])"
        using rejected[OF init True] g Rejects by simp
      from "1.IH"(2)[OF True g[symmetric] Rejects this rejected no_session found exhausted]
      have "Q (retry_loop T d gs (el + da + setTimeout_delay d) (k + 1) (Some e)
              (log @ [\<lparr>att_number = k, att_start = el, att_outcome = Rejects e,
                        att_delay = Some (setTimeout_delay d)\<rparr>]))" .
      moreover have "retry_loop T d gs el k le log =
          retry_loop T d gs (el + da + setTimeout_delay d) (k + 1) (Some e)
              (log @ [\<lparr>att_number = k, att_start = el, att_outcome = Rejects e,
                        att_delay = Some (setTimeout_delay d)\<rparr>])"
        by (subst retry_loop.simps) (simp add: True g Rejects)
      ultimately show ?thesis by simp
    next
      case (Resolves r)
      show ?thesis
      proof (cases "data_session r = None")
        case False
        have "retry_loop T d gs el k le log =
            \<lparr>returned = Inr r, finished_at = el + da,
             attempts = log @ [\<lparr>att_number = k, att_start = el, att_outcome = Resolves r,
                                 att_delay = None\<rparr>]\<rparr>"
          by (subst retry_loop.simps) (simp add: True g Resolves False)
        with found[OF init True _ False, of da] g Resolves show ?thesis by simp
      next
        case no: True
        then have no': "\<not> data_session r \<noteq> None" by simp
        have "I (el + da + setTimeout_delay (min (d * k) 2000)) (k + 1) le
                (log @ [\<lparr>att_number = k, att_start = el, att_outcome = Resolves r,
                          att_delay = Some (setTimeout_delay (min (d * k) 2000))\<rparr>])"
          using no_session[OF init True _ no] g Resolves by simp
        from "1.IH"(1)[OF True g[symmetric] Resolves no' refl this rejected no_session found
            exhausted]
        have "Q (retry_loop T d gs (el + da + setTimeout_delay (min (d * k) 2000)) (k + 1) le
                (log @ [\<lparr>att_number = k, att_start = el, att_outcome = Resolves r,
                          att_delay = Some (setTimeout_delay (min (d * k) 2000))\<rparr>]))" .
        moreover have "retry_loop T d gs el k le log =
            retry_loop T d gs (el + da + setTimeout_delay (min (d * k) 2000)) (k + 1) le
                (log @ [\<lparr>att_number = k, att_start = el, att_outcome = Resolves r,
                          att_delay = Some (setTimeout_delay (min (d * k) 2000))\<rparr>])"
          by (subst retry_loop.simps) (simp add: True g Resolves no Let_def)
        ultimately show ?thesis by simp
      qed
    qed
  qed
qed

lemma retry_delays:
  assumes "\<forall>a\<in>set log. att_delay a =
           (case att_outcome a of
              Rejects e \<Rightarrow> Some (setTimeout_delay d)
            | Resolves r \<Rightarrow>
                if data_session r = None then Some (setTimeout_delay (min (d * att_number a) 2000))
                else None)"
  shows "\<forall>a\<in>set (attempts (retry_loop T d gs el k le log)). att_delay a =
           (case att_outcome a of
              Rejects e \<Rightarrow> Some (setTimeout_delay d)
            | Resolves r \<Rightarrow>
                if data_session r = None then Some (setTimeout_delay (min (d * att_number a) 2000))
                else None)"
  by (rule retry_loop_rule[where I = "\<lambda>el k le log. \<forall>a\<in>set log. att_delay a =
           (case att_outcome a of
              Rejects e \<Rightarrow> Some (setTimeout_delay d)
            | Resolves r \<Rightarrow>
                if data_session r = None then Some (setTimeout_delay (min (d * att_number a) 2000))
                else None)"])
     (use assms in auto)

lemma retry_last_error:
  assumes "le = (if observed_errors log = [] then None else Some (last (observed_errors log)))"
  shows "\<forall>e. returned (retry_loop T d gs el k le log) = Inl e \<longrightarrow>
           e = (if observed_errors (attempts (retry_loop T d gs el k le log)) = []
                then plain_error (''Session check failed after '' @ show_nat T @ ''ms'')
                else last (observed_errors (attempts (retry_loop T d gs el k le log))))"
  by (rule retry_loop_rule[where I = "\<lambda>el k le log.
           le = (if observed_errors log = [] then None else Some (last (observed_errors log)))"
        and Q = "\<lambda>out. \<forall>e. returned out = Inl e \<longrightarrow>
           e = (if observed_errors (attempts out) = []
                then plain_error (''Session check failed after '' @ show_nat T @ ''ms'')
                else last (observed_errors (attempts out)))"])
     (use assms in \<open>auto simp: observed_errors_append\<close>)

lemma retry_gives_up_late:
  "\<forall>e. returned (retry_loop T d gs el k le log) = Inl e \<longrightarrow>
       T \<le> finished_at (retry_loop T d gs el k le log)"
  by (rule retry_loop_rule[where I = "\<lambda>el k le log. True"
        and Q = "\<lambda>out. \<forall>e. returned out = Inl e \<longrightarrow> T \<le> finished_at out"]) auto

lemma retry_numbers:
  assumes "map att_number log = [1..<k]" "k = Suc (length log)"
  shows "map att_number (attempts (retry_loop T d gs el k le log)) =
           [1..<Suc (length (attempts (retry_loop T d gs el k le log)))]"
  by (rule retry_loop_rule[where I = "\<lambda>el k le log. map att_number log = [1..<k] \<and> k = Suc (length log)"
        and Q = "\<lambda>out. map att_number (attempts out) = [1..<Suc (length (attempts out))]"])
     (use assms in auto)

lemma retry_outcomes:
  assumes "\<forall>a\<in>set log. att_outcome a = snd (getSessionWithTimeout 5000 (gs (att_number a)))"
  shows "\<forall>a\<in>set (attempts (retry_loop T d gs el k le log)).
           att_outcome a = snd (getSessionWithTimeout 5000 (gs (att_number a)))"
  by (rule retry_loop_rule[where I = "\<lambda>el k le log.
           \<forall>a\<in>set log. att_outcome a = snd (getSessionWithTimeout 5000 (gs (att_number a)))"])
     (use assms in auto)

lemma setTimeout_delay_le: "setTimeout_delay d \<le> max d 2000"
  by (simp add: setTimeout_delay_def)

lemma retry_bound:
  "finished_at (retry_loop T d gs el k le log) < max (Suc el) (T + 5000 + max d 2000)"
proof (rule retry_loop_rule[where I = "\<lambda>el' k le log. el' < max (Suc el) (T + 5000 + max d 2000)"
        and Q = "\<lambda>out. finished_at out < max (Suc el) (T + 5000 + max d 2000)"], goal_cases)
  case 1
  show ?case by simp
next
  case (2 el' k le log da e)
  from timeout_le[OF 2(3)] setTimeout_delay_le[of d] 2(2) show ?case by simp
next
  case (3 el' k le log da r)
  from timeout_le[OF 3(3)] setTimeout_delay_capped[of "d * k"] 3(2) show ?case by simp
next
  case (4 el' k le log da r)
  from timeout_le[OF 4(3)] 4(2) show ?case by simp
next
  case (5 el' k le log)
  then show ?case by simp
qed

lemma retry_found_last:
  assumes "\<forall>a\<in>set log. \<forall>r. att_outcome a = Resolves r \<longrightarrow> data_session r = None"
  shows "\<forall>a\<in>set (attempts (retry_loop T d gs el k le log)).
           \<forall>r. att_outcome a = Resolves r \<and> data_session r \<noteq> None \<longrightarrow>
             returned (retry_loop T d gs el k le log) = Inr r \<and>
             a = last (attempts (retry_loop T d gs el k le log)) \<and> att_delay a = None \<and>
             finished_at (retry_loop T d gs el k le log) = settled_at gs a"
  by (rule retry_loop_rule[where I = "\<lambda>el k le log.
           \<forall>a\<in>set log. \<forall>r. att_outcome a = Resolves r \<longrightarrow> data_session r = None"
        and Q = "\<lambda>out. \<forall>a\<in>set (attempts out).
           \<forall>r. att_outcome a = Resolves r \<and> data_session r \<noteq> None \<longrightarrow>
             returned out = Inr r \<and> a = last (attempts out) \<and> att_delay a = None \<and>
             finished_at out = settled_at gs a"])
     (use assms in \<open>auto simp: settled_at_def\<close>)

lemma retry_returned_session:
  "\<forall>r. returned (retry_loop T d gs el k le log) = Inr r \<longrightarrow>
       attempts (retry_loop T d gs el k le log) \<noteq> [] \<and>
       att_outcome (last (attempts (retry_loop T d gs el k le log))) = Resolves r \<and>
       data_session r \<noteq> None \<and> finished_at (retry_loop T d gs el k le log) < T + 5000"
  by (rule retry_loop_rule[where I = "\<lambda>el k le log. True"
        and Q = "\<lambda>out. \<forall>r. returned out = Inr r \<longrightarrow>
           attempts out \<noteq> [] \<and> att_outcome (last (attempts out)) = Resolves r \<and>
           data_session r \<noteq> None \<and> finished_at out < T + 5000"])
     (auto dest!: timeout_resolves_lt)

lemma retry_sequential:
  assumes "sorted_wrt (\<lambda>a b. settled_at gs a \<le> att_start b) log"
    and "\<forall>a\<in>set log. settled_at gs a \<le> el"
  shows "sorted_wrt (\<lambda>a b. settled_at gs a \<le> att_start b)
           (attempts (retry_loop T d gs el k le log))"
  by (rule retry_loop_rule[where I = "\<lambda>el k le log.
           sorted_wrt (\<lambda>a b. settled_at gs a \<le> att_start b) log \<and>
           (\<forall>a\<in>set log. settled_at gs a \<le> el)"
        and Q = "\<lambda>out. sorted_wrt (\<lambda>a b. settled_at gs a \<le> att_start b) (attempts out)"])
     (use assms in \<open>auto simp: sorted_wrt_append settled_at_def\<close>)

lemma waited_rejects: "att_outcome a = Rejects e \<Longrightarrow> waited d a = setTimeout_delay d"
  by (simp add: waited_def)

lemma waited_resolves:
  "att_outcome a = Resolves r \<Longrightarrow> waited d a = setTimeout_delay (min (d * att_number a) 2000)"
  by (simp add: waited_def)

lemma retry_timeline:
  assumes "successively (\<lambda>a b. att_start b = settled_at gs a + waited d a) log"
    and "log \<noteq> [] \<longrightarrow> att_start (hd log) = el0 \<and> el = settled_at gs (last log) + waited d (last log)"
    and "log = [] \<longrightarrow> el = el0"
  shows "successively (\<lambda>a b. att_start b = settled_at gs a + waited d a)
           (attempts (retry_loop T d gs el k le log)) \<and>
         (attempts (retry_loop T d gs el k le log) \<noteq> [] \<longrightarrow>
            att_start (hd (attempts (retry_loop T d gs el k le log))) = el0) \<and>
         (\<forall>e. returned (retry_loop T d gs el k le log) = Inl e \<longrightarrow>
            finished_at (retry_loop T d gs el k le log) =
              (if attempts (retry_loop T d gs el k le log) = [] then el0
               else settled_at gs (last (attempts (retry_loop T d gs el k le log))) +
                    waited d (last (attempts (retry_loop T d gs el k le log)))))"
  by (rule retry_loop_rule[where I = "\<lambda>el k le log.
         successively (\<lambda>a b. att_start b = settled_at gs a + waited d a) log \<and>
         (log \<noteq> [] \<longrightarrow> att_start (hd log) = el0 \<and>
            el = settled_at gs (last log) + waited d (last log)) \<and>
         (log = [] \<longrightarrow> el = el0)"
      and Q = "\<lambda>out.
         successively (\<lambda>a b. att_start b = settled_at gs a + waited d a) (attempts out) \<and>
         (attempts out \<noteq> [] \<longrightarrow> att_start (hd (attempts out)) = el0) \<and>
         (\<forall>e. returned out = Inl e \<longrightarrow>
            finished_at out =
              (if attempts out = [] then el0
               else settled_at gs (last (attempts out)) + waited d (last (attempts out))))"])
     (use assms in \<open>auto simp: successively_append_iff settled_at_def hd_append
        waited_rejects waited_resolves\<close>)

lemma always_failing_eval:
  "getSessionWithRetry 1500 500 always_failing = always_failing_run"
  by (simp add: getSessionWithRetry_def retry_loop.simps always_failing_def
        getSessionWithTimeout_def setTimeout_delay_def always_failing_run_def)

lemma never_signed_in_eval:
  "getSessionWithRetry 3000 900 never_signed_in = never_signed_in_run"
  by (simp add: getSessionWithRetry_def retry_loop.simps never_signed_in_def
        getSessionWithTimeout_def setTimeout_delay_def never_signed_in_run_def show_nat_3000)

lemma slow_first_eval:
  "getSessionWithRetry 6000 600 slow_first = slow_first_run"
  by (simp add: getSessionWithRetry_def retry_loop.simps slow_first_def
        getSessionWithTimeout_def setTimeout_delay_def slow_first_run_def show_nat_5000)

lemma third_time_lucky_eval:
  "getSessionWithRetry 20000 500 third_time_lucky = third_time_lucky_run"
  by (simp add: getSessionWithRetry_def retry_loop.simps third_time_lucky_def
        getSessionWithTimeout_def setTimeout_delay_def third_time_lucky_run_def)

text \<open>
  Claim C3, as the code has it. The function always ends. Its attempts are numbered 1, 2, ...,
  the first starts at once, and each is the race of its lookup against the 5000 ms timer. After
  an attempt that returned without a session the next attempt starts
  \<open>min (initialDelayMs * attempt) 2000\<close> ms after the attempt settled; after an attempt that
  threw (a timeout included) it starts \<open>initialDelayMs\<close> ms after, whatever the attempt number
  and with no cap. Both delays are timer delays: below 1 ms or above \<open>2^31 - 1\<close> ms the timer
  waits 1 ms. When the function gives up, the same delay has passed since its last attempt, the
  budget is used up, and it throws the error of the last attempt that threw, or
  \<^verbatim>\<open>Session check failed after <maxTimeMs>ms\<close> when no attempt threw.
\<close>

theorem retry_delay_and_rethrow:
  assumes "out = getSessionWithRetry maxTimeMs initialDelayMs gs"
  shows "map att_number (attempts out) = [1..<Suc (length (attempts out))] \<and>
         (\<forall>a\<in>set (attempts out).
            att_outcome a = snd (getSessionWithTimeout 5000 (gs (att_number a)))) \<and>
         (attempts out \<noteq> [] \<longrightarrow> att_start (hd (attempts out)) = 0) \<and>
         successively
           (\<lambda>a b. att_start b = settled_at gs a +
              (case att_outcome a of
                 Rejects e \<Rightarrow> setTimeout_delay initialDelayMs
               | Resolves r \<Rightarrow> setTimeout_delay (min (initialDelayMs * att_number a) 2000)))
           (attempts out) \<and>
         (\<forall>a\<in>set (attempts out). att_delay a =
            (case att_outcome a of
               Rejects e \<Rightarrow> Some (setTimeout_delay initialDelayMs)
             | Resolves r \<Rightarrow>
                 if data_session r = None
                 then Some (setTimeout_delay (min (initialDelayMs * att_number a) 2000))
                 else None)) \<and>
         (\<forall>e. returned out = Inl e \<longrightarrow>
            maxTimeMs \<le> finished_at out \<and>
            finished_at out =
              (if attempts out = [] then 0
               else settled_at gs (last (attempts out)) +
                 (case att_outcome (last (attempts out)) of
                    Rejects e \<Rightarrow> setTimeout_delay initialDelayMs
                  | Resolves r \<Rightarrow>
                      setTimeout_delay
                        (min (initialDelayMs * att_number (last (attempts out))) 2000))) \<and>
            e = (if observed_errors (attempts out) = []
                 then plain_error (''Session check failed after '' @ show_nat maxTimeMs @ ''ms'')
                 else last (observed_errors (attempts out))))"
proof -
  have out: "out = retry_loop maxTimeMs initialDelayMs gs 0 1 None []"
    using assms by (simp add: getSessionWithRetry_def)
  have nums: "map att_number (attempts out) = [1..<Suc (length (attempts out))]"
    unfolding out by (rule retry_numbers) simp_all
  have outs: "\<forall>a\<in>set (attempts out).
            att_outcome a = snd (getSessionWithTimeout 5000 (gs (att_number a)))"
    unfolding out by (rule retry_outcomes) simp
  have tl: "successively (\<lambda>a b. att_start b = settled_at gs a + waited initialDelayMs a)
           (attempts out) \<and>
         (attempts out \<noteq> [] \<longrightarrow> att_start (hd (attempts out)) = 0) \<and>
         (\<forall>e. returned out = Inl e \<longrightarrow>
            finished_at out =
              (if attempts out = [] then 0
               else settled_at gs (last (attempts out)) +
                    waited initialDelayMs (last (attempts out))))"
    unfolding out by (rule retry_timeline) simp_all
  note tl' = tl[unfolded waited_def]
  have delays: "\<forall>a\<in>set (attempts out). att_delay a =
            (case att_outcome a of
               Rejects e \<Rightarrow> Some (setTimeout_delay initialDelayMs)
             | Resolves r \<Rightarrow>
                 if data_session r = None
                 then Some (setTimeout_delay (min (initialDelayMs * att_number a) 2000))
                 else None)"
    unfolding out by (rule retry_delays) simp
  have err: "\<forall>e. returned out = Inl e \<longrightarrow>
           e = (if observed_errors (attempts out) = []
                then plain_error (''Session check failed after '' @ show_nat maxTimeMs @ ''ms'')
                else last (observed_errors (attempts out)))"
    unfolding out by (rule retry_last_error) simp
  have late: "\<forall>e. returned out = Inl e \<longrightarrow> maxTimeMs \<le> finished_at out"
    unfolding out by (rule retry_gives_up_late)
  from nums outs tl' delays err late show ?thesis
    by blast
qed

theorem retry_delay_and_rethrow_witness:
  "never_signed_in_run = getSessionWithRetry 3000 900 never_signed_in \<and>
   map att_start (attempts never_signed_in_run) = [0, 910, 2720] \<and>
   map (settled_at never_signed_in) (attempts never_signed_in_run) = [10, 920, 2730] \<and>
   setTimeout_delay (min (900 * 1) 2000) = 900 \<and>
   setTimeout_delay (min (900 * 2) 2000) = 1800 \<and>
   setTimeout_delay (min (900 * 3) 2000) = 2000 \<and>
   finished_at never_signed_in_run = 2730 + 2000 \<and>
   returned never_signed_in_run = Inl (plain_error ''Session check failed after 3000ms'') \<and>
   always_failing_run = getSessionWithRetry 1500 500 always_failing \<and>
   map att_start (attempts always_failing_run) = [0, 600, 1200] \<and>
   map (settled_at always_failing) (attempts always_failing_run) = [100, 700, 1300] \<and>
   setTimeout_delay 500 = 500 \<and>
   finished_at always_failing_run = 1300 + 500 \<and>
   returned always_failing_run = Inl (plain_error ''Failed to fetch'')"
proof -
  note a = retry_delay_and_rethrow[OF never_signed_in_eval[symmetric]]
  note b = retry_delay_and_rethrow[OF always_failing_eval[symmetric]]
  from a have a1: "map att_number (attempts never_signed_in_run) =
      [1..<Suc (length (attempts never_signed_in_run))]"
    by (rule conjunct1)
  from b have b1: "map att_number (attempts always_failing_run) =
      [1..<Suc (length (attempts always_failing_run))]"
    by (rule conjunct1)
  have ev: "never_signed_in_run = getSessionWithRetry 3000 900 never_signed_in"
    "always_failing_run = getSessionWithRetry 1500 500 always_failing"
    by (simp_all add: never_signed_in_eval always_failing_eval)
  have rest: "map att_start (attempts never_signed_in_run) = [0, 910, 2720]"
    "map (settled_at never_signed_in) (attempts never_signed_in_run) = [10, 920, 2730]"
    "setTimeout_delay (min (900 * 1) 2000) = 900"
    "setTimeout_delay (min (900 * 2) 2000) = 1800"
    "setTimeout_delay (min (900 * 3) 2000) = 2000"
    "finished_at never_signed_in_run = 2730 + 2000"
    "returned never_signed_in_run = Inl (plain_error ''Session check failed after 3000ms'')"
    "map att_start (attempts always_failing_run) = [0, 600, 1200]"
    "map (settled_at always_failing) (attempts always_failing_run) = [100, 700, 1300]"
    "setTimeout_delay 500 = 500"
    "finished_at always_failing_run = 1300 + 500"
    "returned always_failing_run = Inl (plain_error ''Failed to fetch'')"
    using a1 b1
    by (simp_all add: never_signed_in_run_def always_failing_run_def settled_at_def
          never_signed_in_def always_failing_def getSessionWithTimeout_def setTimeout_delay_def)
  from ev rest show ?thesis by blast
qed

text \<open>
  Claim C3 as stated gives the delay \<open>min (initialDelayMs * attempt) 2000\<close> between any two
  attempts. In this run the second attempt fails at 700 ms and the third attempt starts at
  1200 ms: the delay between them is 500, not 1000.
\<close>

theorem retry_delay_counterexample:
  "getSessionWithRetry 1500 500 always_failing = always_failing_run \<and>
   att_number (attempts always_failing_run ! 1) = 2 \<and>
   settled_at always_failing (attempts always_failing_run ! 1) = 700 \<and>
   att_number (attempts always_failing_run ! 2) = 3 \<and>
   att_start (attempts always_failing_run ! 2) = 700 + 500 \<and>
   min (500 * 2) 2000 = (1000::nat)"
  using always_failing_eval
  by (simp add: always_failing_run_def settled_at_def always_failing_def
        getSessionWithTimeout_def setTimeout_delay_def)

text \<open>
  Claim C4, as the code has it. The function always ends, and the elapsed time is then below
  \<open>maxTimeMs + 5000 + max initialDelayMs 2000\<close>: the budget, one attempt's timeout and one
  delay (the budget is checked only before an attempt, and the delay after the attempt is waited
  before the next check). Attempts are numbered 1, 2, ... without gaps, each is the race of its
  lookup against the 5000 ms timer, and an attempt starts only after the race of every earlier
  one has settled. An attempt that obtains a session is the last one: the function returns its
  result at the moment the attempt settles, with no delay and no further attempt, and then the
  elapsed time is below \<open>maxTimeMs + 5000\<close>.
\<close>

theorem retry_time_bound_and_early_return:
  assumes "out = getSessionWithRetry maxTimeMs initialDelayMs gs"
  shows "finished_at out < maxTimeMs + 5000 + max initialDelayMs 2000 \<and>
         map att_number (attempts out) = [1..<Suc (length (attempts out))] \<and>
         (\<forall>a\<in>set (attempts out).
            att_outcome a = snd (getSessionWithTimeout 5000 (gs (att_number a)))) \<and>
         sorted_wrt (\<lambda>a b. settled_at gs a \<le> att_start b) (attempts out) \<and>
         (\<forall>a\<in>set (attempts out). \<forall>r.
            att_outcome a = Resolves r \<and> data_session r \<noteq> None \<longrightarrow>
              returned out = Inr r \<and> att_number a = length (attempts out) \<and>
              att_delay a = None \<and> finished_at out = settled_at gs a) \<and>
         (\<forall>r. returned out = Inr r \<longrightarrow>
            attempts out \<noteq> [] \<and> att_outcome (last (attempts out)) = Resolves r \<and>
            data_session r \<noteq> None \<and> finished_at out < maxTimeMs + 5000)"
proof -
  have out: "out = retry_loop maxTimeMs initialDelayMs gs 0 1 None []"
    using assms by (simp add: getSessionWithRetry_def)
  have bound: "finished_at out < maxTimeMs + 5000 + max initialDelayMs 2000"
    using retry_bound[of maxTimeMs initialDelayMs gs 0 1 None "[]"] by (simp add: out)
  have nums: "map att_number (attempts out) = [1..<Suc (length (attempts out))]"
    unfolding out by (rule retry_numbers) simp_all
  have outs: "\<forall>a\<in>set (attempts out).
            att_outcome a = snd (getSessionWithTimeout 5000 (gs (att_number a)))"
    unfolding out by (rule retry_outcomes) simp
  have seq: "sorted_wrt (\<lambda>a b. settled_at gs a \<le> att_start b) (attempts out)"
    unfolding out by (rule retry_sequential) simp_all
  have found: "\<forall>a\<in>set (attempts out). \<forall>r.
            att_outcome a = Resolves r \<and> data_session r \<noteq> None \<longrightarrow>
              returned out = Inr r \<and> a = last (attempts out) \<and>
              att_delay a = None \<and> finished_at out = settled_at gs a"
    unfolding out by (rule retry_found_last) simp
  have last_no: "att_number (last (attempts out)) = length (attempts out)"
    if "attempts out \<noteq> []"
  proof -
    from that have "att_number (last (attempts out)) = last (map att_number (attempts out))"
      by (simp add: last_map)
    also have "\<dots> = last [1..<Suc (length (attempts out))]"
      by (simp only: nums[symmetric])
    also from that have "\<dots> = length (attempts out)"
      by (cases "attempts out") simp_all
    finally show ?thesis .
  qed
  have found': "\<forall>a\<in>set (attempts out). \<forall>r.
            att_outcome a = Resolves r \<and> data_session r \<noteq> None \<longrightarrow>
              returned out = Inr r \<and> att_number a = length (attempts out) \<and>
              att_delay a = None \<and> finished_at out = settled_at gs a"
  proof (intro ballI allI impI)
    fix a r
    assume a: "a \<in> set (attempts out)"
      and s: "att_outcome a = Resolves r \<and> data_session r \<noteq> None"
    from a have ne: "attempts out \<noteq> []" by auto
    from found a s
    have f: "returned out = Inr r \<and> a = last (attempts out) \<and>
              att_delay a = None \<and> finished_at out = settled_at gs a"
      by blast
    then have "a = last (attempts out)" by simp
    with last_no[OF ne] have "att_number a = length (attempts out)" by simp
    with f
    show "returned out = Inr r \<and> att_number a = length (attempts out) \<and>
              att_delay a = None \<and> finished_at out = settled_at gs a"
      by blast
  qed
  have ret: "\<forall>r. returned out = Inr r \<longrightarrow>
            attempts out \<noteq> [] \<and> att_outcome (last (attempts out)) = Resolves r \<and>
            data_session r \<noteq> None \<and> finished_at out < maxTimeMs + 5000"
    unfolding out by (rule retry_returned_session)
  show ?thesis
    by (intro conjI bound nums outs seq found' ret)
qed

theorem retry_time_bound_and_early_return_witness:
  "third_time_lucky_run = getSessionWithRetry 20000 500 third_time_lucky \<and>
   finished_at third_time_lucky_run < 20000 + 5000 + max 500 2000 \<and>
   map att_number (attempts third_time_lucky_run) = [1, 2, 3] \<and>
   returned third_time_lucky_run = Inr \<lparr>data_session = Some bare_session, auth_error = None\<rparr> \<and>
   length (attempts third_time_lucky_run) = 3 \<and>
   finished_at third_time_lucky_run = 1150"
proof -
  note t = retry_time_bound_and_early_return[OF third_time_lucky_eval[symmetric]]
  from t have bound: "finished_at third_time_lucky_run < 20000 + 5000 + max 500 2000"
    by (rule conjunct1)
  from t have "map att_number (attempts third_time_lucky_run) =
      [1..<Suc (length (attempts third_time_lucky_run))]"
    by blast
  then have nums: "map att_number (attempts third_time_lucky_run) = [1, 2, 3]"
    by (simp add: third_time_lucky_run_def upt_rec)
  from bound nums third_time_lucky_eval show ?thesis
    by (simp add: third_time_lucky_run_def)
qed

text \<open>
  Claim C4 as stated bounds the time before giving up by the budget plus one attempt's timeout,
  and allows one lookup in flight. With a budget of 6000 ms and a delay of 600 ms, a first lookup
  that answers after nine seconds and later lookups that hang, the function gives up after
  11200 ms; and the second attempt starts at 5600 ms, while the first lookup, which lost its
  race and was not cancelled, answers only at 9000 ms.
\<close>

theorem retry_time_bound_counterexample:
  "getSessionWithRetry 6000 600 slow_first = slow_first_run \<and>
   returned slow_first_run = Inl (plain_error ''Session check timed out after 5000ms'') \<and>
   finished_at slow_first_run = 11200 \<and>
   \<not> finished_at slow_first_run \<le> 6000 + 5000 \<and>
   lookup_answers_at slow_first (attempts slow_first_run ! 0) = Some 9000 \<and>
   att_start (attempts slow_first_run ! 1) = 5600"
  using slow_first_eval
  by (simp add: slow_first_run_def lookup_answers_at_def slow_first_def)

section \<open>The token exchange function: replies\<close>

lemma stringify_Cons_Some: "stringify ((k, Some v) # kvs) = (k, v) # stringify kvs"
  by (simp add: stringify_def List.map_filter_simps)

lemma stringify_Cons_None: "stringify ((k, None) # kvs) = stringify kvs"
  by (simp add: stringify_def List.map_filter_simps)

lemma stringify_Nil: "stringify [] = []"
  by (simp add: stringify_def List.map_filter_simps)

lemmas stringify_simps = stringify_Nil stringify_Cons_Some stringify_Cons_None

lemma axios_get_answered: "net r = Some a \<Longrightarrow> axios_get net r = Some a"
  by (simp add: axios_get_def)

lemma axios_get_no_timeout: "timeout r = None \<Longrightarrow> axios_get net r = net r"
  by (simp add: axios_get_def split: option.splits)

lemma exchange_handler_token_path:
  assumes "httpMethod ev \<noteq> ''OPTIONS''"
    and "query_code ev = Some code" "code \<noteq> []"
    and "appId env = Some client_id" "client_id \<noteq> []"
    and "appSecret env = Some client_secret" "client_secret \<noteq> []"
  shows "exchange_handler env net ev =
     (case exchange_try net client_id client_secret code of
        (None, reqs) \<Rightarrow> (None, reqs)
      | (Some (Inr r), reqs) \<Rightarrow> (Some r, reqs)
      | (Some (Inl error), reqs) \<Rightarrow>
          (Some (reply 500
             [(''error'',
                 js_or (opt_member (opt_member (response_data error) ''error'') ''message'')
                   (js_or (Some (JStr (message error)))
                      (Some (JStr ''Server error during token exchange''))))]),
           reqs))"
  using assms by (simp add: exchange_handler_def)

lemma exchange_try_with_token:
  assumes "net (token_request client_id client_secret code) = Some (Resolves data)"
    and "get_member data ''access_token'' = Inr access_token" "truthy access_token"
  shows "exchange_try net client_id client_secret code =
     (case pages_try net access_token (opt_member data ''expires_in'') of
        (None, reqs) \<Rightarrow> (None, token_request client_id client_secret code # reqs)
      | (Some (Inr r), reqs) \<Rightarrow> (Some (Inr r), token_request client_id client_secret code # reqs)
      | (Some (Inl pagesError), reqs) \<Rightarrow>
          (Some (Inr (reply 200
             [(''accessToken'', access_token),
              (''expiresIn'', opt_member data ''expires_in''),
              (''pages'', Some (JArr [])),
              (''pagesError'', Some (JStr ''Failed to fetch pages'')),
              (''errorDetails'',
                 js_or (opt_member (response_data pagesError) ''error'')
                       (Some (JStr (message pagesError))))])),
           token_request client_id client_secret code # reqs))"
  using assms by (simp add: exchange_try_def Let_def axios_get_answered)

lemma truthy_Some: "truthy v \<Longrightarrow> \<exists>j. v = Some j"
  by (cases v) simp_all

lemma js_or_Some: "\<exists>j. js_or a (Some d) = Some j"
  by (cases a) (simp_all add: js_or_def)

text \<open>
  Claim C1. When a request reaches the token exchange (it is not a preflight, carries a code,
  and the application id and secret are set), the token endpoint answers with an access token
  and the pages request throws, the handler replies with 200; the body has the access token and
  \<^verbatim>\<open>expires_in\<close> of the token response under \<^verbatim>\<open>accessToken\<close> and \<^verbatim>\<open>expiresIn\<close>, the empty
  list under \<^verbatim>\<open>pages\<close>, and the member \<^verbatim>\<open>pagesError\<close>. The two requests made are the token
  request and the pages request.
\<close>

theorem pages_failure_keeps_token:
  assumes "httpMethod ev \<noteq> ''OPTIONS''"
    and "query_code ev = Some code" "code \<noteq> []"
    and "appId env = Some client_id" "client_id \<noteq> []"
    and "appSecret env = Some client_secret" "client_secret \<noteq> []"
    and "net (token_request client_id client_secret code) = Some (Resolves data)"
    and "get_member data ''access_token'' = Inr access_token" "truthy access_token"
    and "net (pages_request access_token) = Some (Rejects pagesError)"
  shows "(\<exists>r. fst (exchange_handler env net ev) = Some r \<and>
              statusCode r = 200 \<and>
              body_member r ''accessToken'' = access_token \<and>
              body_member r ''expiresIn'' = opt_member data ''expires_in'' \<and>
              body_member r ''pages'' = Some (JArr []) \<and>
              body_member r ''pagesError'' = Some (JStr ''Failed to fetch pages'')) \<and>
         snd (exchange_handler env net ev) =
           [token_request client_id client_secret code, pages_request access_token]"
proof -
  from assms(10) obtain tok where tok: "access_token = Some tok"
    by (auto dest: truthy_Some)
  obtain det where det: "js_or (opt_member (response_data pagesError) ''error'')
                       (Some (JStr (message pagesError))) = Some det"
    using js_or_Some by blast
  have pt: "pages_try net access_token (opt_member data ''expires_in'') =
      (Some (Inl pagesError), [pages_request access_token])"
    using assms(11) by (simp add: pages_try_def axios_get_answered)
  have eq: "exchange_handler env net ev =
      (Some (reply 200
         [(''accessToken'', access_token),
          (''expiresIn'', opt_member data ''expires_in''),
          (''pages'', Some (JArr [])),
          (''pagesError'', Some (JStr ''Failed to fetch pages'')),
          (''errorDetails'', Some det)]),
       [token_request client_id client_secret code, pages_request access_token])"
    by (simp add: exchange_handler_token_path[where net = net, OF assms(1-7)]
          exchange_try_with_token[where net = net, OF assms(8-10)] pt det)
  show ?thesis
    unfolding eq
    by (cases "opt_member data ''expires_in''")
       (simp_all add: reply_def body_member_def tok stringify_simps)
qed

theorem pages_failure_keeps_token_witness:
  "map_option statusCode (fst (exchange_handler configured_app token_only callback)) = Some 200 \<and>
   replied_member (fst (exchange_handler configured_app token_only callback)) ''accessToken'' =
     Some (JStr ''T1'') \<and>
   replied_member (fst (exchange_handler configured_app token_only callback)) ''expiresIn'' =
     Some (JNum 3600) \<and>
   replied_member (fst (exchange_handler configured_app token_only callback)) ''pages'' =
     Some (JArr []) \<and>
   replied_member (fst (exchange_handler configured_app token_only callback)) ''pagesError'' =
     Some (JStr ''Failed to fetch pages'')"
proof -
  have tok: "token_only (token_request ''1234567890'' ''app-secret'' ''abc123'') =
      Some (Resolves (Some token_data))"
    by (simp add: token_only_def token_request_def)
  have acc: "get_member (Some token_data) ''access_token'' = Inr (Some (JStr ''T1''))"
    by (simp add: get_member_def token_data_def)
  have pg: "token_only (pages_request (Some (JStr ''T1''))) =
      Some (Rejects \<lparr>message = ''Request failed with status code 400'',
                response_data = Some (JObj [(''error'', JObj [(''message'', JStr ''Unsupported get request'')])])\<rparr>)"
    by (simp add: token_only_def pages_request_def tokenExchangeUrl_def)
  have ex: "opt_member (Some token_data) ''expires_in'' = Some (JNum 3600)"
    by (simp add: opt_member_def token_data_def)
  have m: "httpMethod callback \<noteq> ''OPTIONS''" "query_code callback = Some ''abc123''"
    "appId configured_app = Some ''1234567890''" "appSecret configured_app = Some ''app-secret''"
    by (simp_all add: callback_def configured_app_def query_code_def)
  note t = pages_failure_keeps_token[where net = token_only,
      OF m(1) m(2) _ m(3) _ m(4) _ tok acc _ pg, simplified]
  from t[THEN conjunct1] ex show ?thesis
    by (auto simp: replied_member_def)
qed

lemma log_each_page_ok: "JNull \<notin> set ps \<Longrightarrow> log_each_page ps = Inr ()"
proof (induction ps)
  case Nil
  then show ?case by simp
next
  case (Cons p ps)
  then show ?case by (cases p) (simp_all add: get_member_def)
qed

lemma diagnostics_have_no_timeout:
  "axios_get net (user_request t) = net (user_request t)"
  "axios_get net (permissions_request t) = net (permissions_request t)"
  by (simp_all add: axios_get_no_timeout user_request_def permissions_request_def)

lemma user_details_None: "user_details net t = None \<longleftrightarrow> net (user_request t) = None"
  by (simp add: user_details_def diagnostics_have_no_timeout split: option.splits settled.splits)

lemma token_permissions_None:
  "token_permissions net t = None \<longleftrightarrow> net (permissions_request t) = None"
  by (simp add: token_permissions_def diagnostics_have_no_timeout
        split: option.splits settled.splits)

lemma case_option_const: "(case x of None \<Rightarrow> a | Some _ \<Rightarrow> b) = (if x = None then a else b)"
  by (cases x) simp_all

lemma pages_try_some:
  assumes "net (pages_request access_token) = Some (Resolves d)"
    and "get_member d ''data'' = Inr (Some (JArr ps))" "ps \<noteq> []" "JNull \<notin> set ps"
  shows "pages_try net access_token expires_in =
     (Some (Inr (reply 200 (success_body access_token expires_in (JArr ps)))),
      [pages_request access_token])"
  using assms
  by (simp add: pages_try_def axios_get_answered or_else_def Let_def forEach_page_def
        log_each_page_ok)

lemma pages_try_none:
  assumes "net (pages_request access_token) = Some (Resolves d)"
    and "get_member d ''data'' = Inr pd" "\<not> truthy pd \<or> pd = Some (JArr [])"
  shows "pages_try net access_token expires_in =
     (if net (user_request access_token) = None
      then (None, [pages_request access_token, user_request access_token])
      else if net (permissions_request access_token) = None
      then (None, [pages_request access_token, user_request access_token,
                   permissions_request access_token])
      else (Some (Inr (reply 200 (success_body access_token expires_in (JArr [])))),
            [pages_request access_token, user_request access_token,
             permissions_request access_token]))"
proof -
  from assms(3) have e: "or_else pd (JArr []) = JArr []"
    by (cases pd) (auto simp: or_else_def)
  show ?thesis
    using assms(1,2)
    by (simp add: pages_try_def axios_get_answered e Let_def case_option_const
          user_details_None token_permissions_None)
qed

text \<open>
  Claim C8, as the code has it. Let a request reach the token exchange, the token endpoint
  answer with an access token, and the pages request be answered with a body that has members.
  When the \<^verbatim>\<open>data\<close> member is a non-empty array without a null entry, the handler replies
  with 200, that array under \<^verbatim>\<open>pages\<close> and no member \<^verbatim>\<open>pagesError\<close>, after the token and the
  pages request only. When \<^verbatim>\<open>data\<close> is missing, falsy or the empty array, the two diagnostic
  requests follow; once both are answered, with whatever answer, the reply is 200 with the
  empty list under \<^verbatim>\<open>pages\<close> and no \<^verbatim>\<open>pagesError\<close>. The diagnostic requests have no
  timeout: while one of them stays unanswered, the handler does not reply.
\<close>

theorem pages_success_has_no_pagesError:
  assumes "httpMethod ev \<noteq> ''OPTIONS''"
    and "query_code ev = Some code" "code \<noteq> []"
    and "appId env = Some client_id" "client_id \<noteq> []"
    and "appSecret env = Some client_secret" "client_secret \<noteq> []"
    and "net (token_request client_id client_secret code) = Some (Resolves data)"
    and "get_member data ''access_token'' = Inr access_token" "truthy access_token"
    and "net (pages_request access_token) = Some (Resolves d)"
    and "get_member d ''data'' = Inr pd"
  shows "(\<forall>ps. pd = Some (JArr ps) \<and> ps \<noteq> [] \<and> JNull \<notin> set ps \<longrightarrow>
            (\<exists>r. exchange_handler env net ev =
                   (Some r, [token_request client_id client_secret code,
                             pages_request access_token]) \<and>
                 statusCode r = 200 \<and>
                 body_member r ''accessToken'' = access_token \<and>
                 body_member r ''expiresIn'' = opt_member data ''expires_in'' \<and>
                 body_member r ''pages'' = Some (JArr ps) \<and>
                 body_member r ''pagesError'' = None)) \<and>
         (\<not> truthy pd \<or> pd = Some (JArr []) \<longrightarrow>
            (net (user_request access_token) \<noteq> None \<and>
             net (permissions_request access_token) \<noteq> None \<longrightarrow>
               (\<exists>r. exchange_handler env net ev =
                      (Some r, [token_request client_id client_secret code,
                                pages_request access_token, user_request access_token,
                                permissions_request access_token]) \<and>
                    statusCode r = 200 \<and>
                    body_member r ''accessToken'' = access_token \<and>
                    body_member r ''expiresIn'' = opt_member data ''expires_in'' \<and>
                    body_member r ''pages'' = Some (JArr []) \<and>
                    body_member r ''pagesError'' = None)) \<and>
            (net (user_request access_token) = None \<longrightarrow>
               exchange_handler env net ev =
                 (None, [token_request client_id client_secret code,
                         pages_request access_token, user_request access_token])) \<and>
            (net (user_request access_token) \<noteq> None \<and>
             net (permissions_request access_token) = None \<longrightarrow>
               exchange_handler env net ev =
                 (None, [token_request client_id client_secret code,
                         pages_request access_token, user_request access_token,
                         permissions_request access_token])))"
proof -
  from assms(10) obtain tok where tok: "access_token = Some tok"
    by (auto dest: truthy_Some)
  note path = exchange_handler_token_path[where net = net, OF assms(1-7)]
    exchange_try_with_token[where net = net, OF assms(8-10)]
  have fields:
    "statusCode (reply 200 (success_body access_token (opt_member data ''expires_in'') pages)) = 200 \<and>
     body_member (reply 200 (success_body access_token (opt_member data ''expires_in'') pages))
       ''accessToken'' = access_token \<and>
     body_member (reply 200 (success_body access_token (opt_member data ''expires_in'') pages))
       ''expiresIn'' = opt_member data ''expires_in'' \<and>
     body_member (reply 200 (success_body access_token (opt_member data ''expires_in'') pages))
       ''pages'' = Some pages \<and>
     body_member (reply 200 (success_body access_token (opt_member data ''expires_in'') pages))
       ''pagesError'' = None" for pages
    by (cases "opt_member data ''expires_in''")
       (simp_all add: reply_def body_member_def success_body_def tok stringify_simps)
  have some: "\<exists>r. exchange_handler env net ev =
                   (Some r, [token_request client_id client_secret code,
                             pages_request access_token]) \<and>
                 statusCode r = 200 \<and>
                 body_member r ''accessToken'' = access_token \<and>
                 body_member r ''expiresIn'' = opt_member data ''expires_in'' \<and>
                 body_member r ''pages'' = Some (JArr ps) \<and>
                 body_member r ''pagesError'' = None"
    if "pd = Some (JArr ps) \<and> ps \<noteq> [] \<and> JNull \<notin> set ps" for ps
  proof -
    from that assms(12) have p: "get_member d ''data'' = Inr (Some (JArr ps))" "ps \<noteq> []"
      "JNull \<notin> set ps" by simp_all
    have "exchange_handler env net ev =
        (Some (reply 200 (success_body access_token (opt_member data ''expires_in'') (JArr ps))),
         [token_request client_id client_secret code, pages_request access_token])"
      by (simp add: path pages_try_some[where net = net, OF assms(11) p])
    with fields[of "JArr ps"] show ?thesis by blast
  qed
  have zero: "\<not> truthy pd \<or> pd = Some (JArr []) \<Longrightarrow>
      pages_try net access_token (opt_member data ''expires_in'') =
     (if net (user_request access_token) = None
      then (None, [pages_request access_token, user_request access_token])
      else if net (permissions_request access_token) = None
      then (None, [pages_request access_token, user_request access_token,
                   permissions_request access_token])
      else (Some (Inr (reply 200 (success_body access_token (opt_member data ''expires_in'') (JArr [])))),
            [pages_request access_token, user_request access_token,
             permissions_request access_token]))"
    by (rule pages_try_none[where net = net, OF assms(11,12)])
  have none_ok: "\<exists>r. exchange_handler env net ev =
                      (Some r, [token_request client_id client_secret code,
                                pages_request access_token, user_request access_token,
                                permissions_request access_token]) \<and>
                    statusCode r = 200 \<and>
                    body_member r ''accessToken'' = access_token \<and>
                    body_member r ''expiresIn'' = opt_member data ''expires_in'' \<and>
                    body_member r ''pages'' = Some (JArr []) \<and>
                    body_member r ''pagesError'' = None"
    if "\<not> truthy pd \<or> pd = Some (JArr [])"
      "net (user_request access_token) \<noteq> None \<and> net (permissions_request access_token) \<noteq> None"
  proof -
    have "exchange_handler env net ev =
        (Some (reply 200 (success_body access_token (opt_member data ''expires_in'') (JArr []))),
         [token_request client_id client_secret code, pages_request access_token,
          user_request access_token, permissions_request access_token])"
      using that(2) by (simp add: path zero[OF that(1)])
    with fields[of "JArr []"] show ?thesis by blast
  qed
  have hang1: "exchange_handler env net ev =
                 (None, [token_request client_id client_secret code,
                         pages_request access_token, user_request access_token])"
    if "\<not> truthy pd \<or> pd = Some (JArr [])" "net (user_request access_token) = None"
    using that(2) by (simp add: path zero[OF that(1)])
  have hang2: "exchange_handler env net ev =
                 (None, [token_request client_id client_secret code,
                         pages_request access_token, user_request access_token,
                         permissions_request access_token])"
    if "\<not> truthy pd \<or> pd = Some (JArr [])"
      "net (user_request access_token) \<noteq> None \<and> net (permissions_request access_token) = None"
    using that(2) by (simp add: path zero[OF that(1)])
  from some none_ok hang1 hang2 show ?thesis by blast
qed

lemma callback_facts:
  "httpMethod callback \<noteq> ''OPTIONS''" "query_code callback = Some ''abc123''"
  "appId configured_app = Some ''1234567890''" "appSecret configured_app = Some ''app-secret''"
  by (simp_all add: callback_def configured_app_def query_code_def)

lemma token_data_facts:
  "get_member (Some token_data) ''access_token'' = Inr (Some (JStr ''T1''))"
  "opt_member (Some token_data) ''expires_in'' = Some (JNum 3600)"
  by (simp_all add: get_member_def opt_member_def token_data_def)

lemma opt_member_None: "opt_member None k = None"
  by (simp add: opt_member_def)

lemma url_facts:
  "url (token_request a b c) = tokenExchangeUrl"
  "url (pages_request t) = pages_url" "pages_url \<noteq> tokenExchangeUrl"
  "url (user_request t) \<noteq> tokenExchangeUrl" "url (user_request t) \<noteq> pages_url"
  "url (permissions_request t) \<noteq> tokenExchangeUrl" "url (permissions_request t) \<noteq> pages_url"
  by (simp_all add: token_request_def pages_request_def user_request_def permissions_request_def
        tokenExchangeUrl_def pages_url_def)

theorem pages_success_has_no_pagesError_witness:
  "exchange_handler configured_app one_page callback =
     (Some (reply 200 [(''accessToken'', Some (JStr ''T1'')), (''expiresIn'', Some (JNum 3600)),
                       (''pages'', Some (JArr [shop_page]))]),
      [token_request ''1234567890'' ''app-secret'' ''abc123'',
       pages_request (Some (JStr ''T1''))]) \<and>
   replied_member (fst (exchange_handler configured_app one_page callback)) ''pages'' =
     Some (JArr [shop_page]) \<and>
   replied_member (fst (exchange_handler configured_app one_page callback)) ''pagesError'' = None \<and>
   exchange_handler configured_app no_pages callback =
     (Some (reply 200 [(''accessToken'', Some (JStr ''T1'')), (''expiresIn'', Some (JNum 3600)),
                       (''pages'', Some (JArr []))]),
      [token_request ''1234567890'' ''app-secret'' ''abc123'',
       pages_request (Some (JStr ''T1'')), user_request (Some (JStr ''T1'')),
       permissions_request (Some (JStr ''T1''))]) \<and>
   replied_member (fst (exchange_handler configured_app no_pages callback)) ''pagesError'' = None \<and>
   exchange_handler configured_app silent_diagnostics callback =
     (None,
      [token_request ''1234567890'' ''app-secret'' ''abc123'',
       pages_request (Some (JStr ''T1'')), user_request (Some (JStr ''T1''))])"
proof -
  have one: "one_page (token_request ''1234567890'' ''app-secret'' ''abc123'') =
        Some (Resolves (Some token_data))"
      "one_page (pages_request (Some (JStr ''T1''))) =
        Some (Resolves (Some (JObj [(''data'', JArr [shop_page])])))"
    by (simp_all add: one_page_def url_facts)
  have nop: "no_pages (token_request ''1234567890'' ''app-secret'' ''abc123'') =
        Some (Resolves (Some token_data))"
      "no_pages (pages_request (Some (JStr ''T1''))) =
        Some (Resolves (Some (JObj [(''data'', JArr [])])))"
      "no_pages (user_request (Some (JStr ''T1''))) \<noteq> None"
      "no_pages (permissions_request (Some (JStr ''T1''))) \<noteq> None"
    by (simp_all add: no_pages_def url_facts)
  have sil: "silent_diagnostics (token_request ''1234567890'' ''app-secret'' ''abc123'') =
        Some (Resolves (Some token_data))"
      "silent_diagnostics (pages_request (Some (JStr ''T1''))) =
        Some (Resolves (Some (JObj [(''data'', JArr [])])))"
      "silent_diagnostics (user_request (Some (JStr ''T1''))) = None"
    by (simp_all add: silent_diagnostics_def url_facts)
  have d1: "get_member (Some (JObj [(''data'', JArr [shop_page])])) ''data'' =
      Inr (Some (JArr [shop_page]))"
    and d0: "get_member (Some (JObj [(''data'', JArr [])])) ''data'' = Inr (Some (JArr []))"
    by (simp_all add: get_member_def)
  note c = callback_facts
  have ne: "''abc123'' \<noteq> []" "''1234567890'' \<noteq> []" "''app-secret'' \<noteq> []"
    "truthy (Some (JStr ''T1''))"
    by simp_all
  note t1 = pages_success_has_no_pagesError[where net = one_page,
      OF c(1) c(2) ne(1) c(3) ne(2) c(4) ne(3) one(1) token_data_facts(1) ne(4) one(2) d1]
  note t0 = pages_success_has_no_pagesError[where net = no_pages,
      OF c(1) c(2) ne(1) c(3) ne(2) c(4) ne(3) nop(1) token_data_facts(1) ne(4) nop(2) d0]
  note ts = pages_success_has_no_pagesError[where net = silent_diagnostics,
      OF c(1) c(2) ne(1) c(3) ne(2) c(4) ne(3) sil(1) token_data_facts(1) ne(4) sil(2) d0]
  have p: "JNull \<notin> set [shop_page]" by (simp add: shop_page_def)
  from t1[THEN conjunct1, THEN spec, of "[shop_page]"] p
  obtain r1 where r1: "exchange_handler configured_app one_page callback =
      (Some r1, [token_request ''1234567890'' ''app-secret'' ''abc123'',
                 pages_request (Some (JStr ''T1''))])"
    "body_member r1 ''pages'' = Some (JArr [shop_page])" "body_member r1 ''pagesError'' = None"
    by auto
  from t0[THEN conjunct2] nop(3,4)
  obtain r0 where r0: "exchange_handler configured_app no_pages callback =
      (Some r0, [token_request ''1234567890'' ''app-secret'' ''abc123'',
       pages_request (Some (JStr ''T1'')), user_request (Some (JStr ''T1'')),
       permissions_request (Some (JStr ''T1''))])"
    "body_member r0 ''pagesError'' = None"
    by auto
  from ts[THEN conjunct2] sil(3)
  have s: "exchange_handler configured_app silent_diagnostics callback =
     (None,
      [token_request ''1234567890'' ''app-secret'' ''abc123'',
       pages_request (Some (JStr ''T1'')), user_request (Some (JStr ''T1''))])"
    by auto
  have e1: "exchange_handler configured_app one_page callback =
     (Some (reply 200 [(''accessToken'', Some (JStr ''T1'')), (''expiresIn'', Some (JNum 3600)),
                       (''pages'', Some (JArr [shop_page]))]),
      [token_request ''1234567890'' ''app-secret'' ''abc123'',
       pages_request (Some (JStr ''T1''))])"
    by (simp add: exchange_handler_token_path[where net = one_page,
            OF c(1) c(2) _ c(3) _ c(4)]
          exchange_try_with_token[where net = one_page, OF one(1) token_data_facts(1)]
          pages_try_some[where net = one_page, OF one(2) d1 _ p] token_data_facts
          success_body_def)
  have e0: "exchange_handler configured_app no_pages callback =
     (Some (reply 200 [(''accessToken'', Some (JStr ''T1'')), (''expiresIn'', Some (JNum 3600)),
                       (''pages'', Some (JArr []))]),
      [token_request ''1234567890'' ''app-secret'' ''abc123'',
       pages_request (Some (JStr ''T1'')), user_request (Some (JStr ''T1'')),
       permissions_request (Some (JStr ''T1''))])"
    using nop(3,4)
    by (simp add: exchange_handler_token_path[where net = no_pages,
            OF c(1) c(2) _ c(3) _ c(4)]
          exchange_try_with_token[where net = no_pages, OF nop(1) token_data_facts(1)]
          pages_try_none[where net = no_pages, OF nop(2) d0] token_data_facts
          success_body_def)
  from r1 r0 s e1 e0 show ?thesis
    by (simp add: replied_member_def)
qed

text \<open>
  Claim C8 as stated promises a reply without \<^verbatim>\<open>pagesError\<close> whenever the pages request
  succeeds. The logging after the request runs in the same try block: when the answer lists a
  null entry, reading its \<^verbatim>\<open>id\<close> throws, and the catch replies with \<^verbatim>\<open>pagesError\<close> and an
  empty list although the request succeeded.
\<close>

theorem pages_null_entry_counterexample:
  "null_page (pages_request (Some (JStr ''T1''))) =
     Some (Resolves (Some (JObj [(''data'', JArr [JNull])]))) \<and>
   fst (exchange_handler configured_app null_page callback) =
     Some (reply 200
       [(''accessToken'', Some (JStr ''T1'')), (''expiresIn'', Some (JNum 3600)),
        (''pages'', Some (JArr [])),
        (''pagesError'', Some (JStr ''Failed to fetch pages'')),
        (''errorDetails'',
           Some (JStr (''Cannot read properties of null (reading '' @ quoted ''id'' @ '')'')))]) \<and>
   replied_member (fst (exchange_handler configured_app null_page callback)) ''pagesError'' =
     Some (JStr ''Failed to fetch pages'')"
proof -
  have np: "null_page (token_request ''1234567890'' ''app-secret'' ''abc123'') =
        Some (Resolves (Some token_data))"
      "null_page (pages_request (Some (JStr ''T1''))) =
        Some (Resolves (Some (JObj [(''data'', JArr [JNull])])))"
    by (simp_all add: null_page_def url_facts)
  note c = callback_facts
  have pt: "pages_try null_page (Some (JStr ''T1'')) (Some (JNum 3600)) =
      (Some (Inl (plain_error (''Cannot read properties of null (reading '' @ quoted ''id'' @ '')''))),
       [pages_request (Some (JStr ''T1''))])"
    by (simp add: pages_try_def axios_get_answered np(2) get_member_def or_else_def Let_def
          forEach_page_def)
  have "exchange_handler configured_app null_page callback =
     (Some (reply 200
       [(''accessToken'', Some (JStr ''T1'')), (''expiresIn'', Some (JNum 3600)),
        (''pages'', Some (JArr [])),
        (''pagesError'', Some (JStr ''Failed to fetch pages'')),
        (''errorDetails'',
           Some (JStr (''Cannot read properties of null (reading '' @ quoted ''id'' @ '')'')))]),
      [token_request ''1234567890'' ''app-secret'' ''abc123'',
       pages_request (Some (JStr ''T1''))])"
    by (simp add: exchange_handler_token_path[where net = null_page,
            OF c(1) c(2) _ c(3) _ c(4)]
          exchange_try_with_token[where net = null_page, OF np(1) token_data_facts(1)]
          token_data_facts pt plain_error_def opt_member_None js_or_def)
  with np(2) show ?thesis
    by (simp add: replied_member_def body_member_def reply_def stringify_simps)
qed

text \<open>
  Claim C2, as the code has it. A request without a \<^verbatim>\<open>code\<close> parameter leads to no HTTP
  request at all. When it is not an \<^verbatim>\<open>OPTIONS\<close> request the reply is 400 with the JSON body
  \<^verbatim>\<open>{"error":"Missing code parameter"}\<close>; an \<^verbatim>\<open>OPTIONS\<close> request gets 204 and no body.
\<close>

theorem missing_code_is_rejected:
  assumes "query_code ev = None"
  shows "snd (exchange_handler env net ev) = [] \<and>
         (httpMethod ev \<noteq> ''OPTIONS'' \<longrightarrow>
            (\<exists>r. fst (exchange_handler env net ev) = Some r \<and>
                 statusCode r = 400 \<and>
                 body r = Some [(''error'', JStr ''Missing code parameter'')])) \<and>
         (httpMethod ev = ''OPTIONS'' \<longrightarrow>
            (\<exists>r. fst (exchange_handler env net ev) = Some r \<and>
                 statusCode r = 204 \<and> body r = None))"
  using assms
  by (simp add: exchange_handler_def missing_code_def reply_def preflight_reply_def
        stringify_simps)

theorem missing_code_is_rejected_witness:
  "query_code no_code = None \<and>
   snd (exchange_handler configured_app token_only no_code) = [] \<and>
   map_option statusCode (fst (exchange_handler configured_app token_only no_code)) = Some 400 \<and>
   map_option body (fst (exchange_handler configured_app token_only no_code)) =
     Some (Some [(''error'', JStr ''Missing code parameter'')])"
proof -
  have q: "query_code no_code = None"
    by (simp add: query_code_def no_code_def)
  from missing_code_is_rejected[OF q, of configured_app token_only] q
  show ?thesis by (auto simp: no_code_def)
qed

text \<open>
  Claim C2 as stated promises 400 for every request without a code. The preflight check comes
  first: an \<^verbatim>\<open>OPTIONS\<close> request without a code gets 204 and no body.
\<close>

theorem missing_code_preflight_counterexample:
  "query_code preflight = None \<and>
   map_option statusCode (fst (exchange_handler configured_app token_only preflight)) = Some 204 \<and>
   map_option body (fst (exchange_handler configured_app token_only preflight)) = Some None"
  by (simp add: exchange_handler_def preflight_def query_code_def preflight_reply_def)

text \<open>
  Claim C9, as the code has it. For a request that is not an \<^verbatim>\<open>OPTIONS\<close> request and has
  no (or an empty) \<^verbatim>\<open>code\<close>, the reply is 400 \<^verbatim>\<open>Missing code parameter\<close> whatever the
  environment holds, and no request is made. With a code and without the application id or
  secret, the reply is 500 \<^verbatim>\<open>Server configuration error\<close>. A reply with status 500 is given
  only to a request that is not a preflight and carries a non-empty code.
\<close>

theorem input_check_precedes_configuration_check:
  "(httpMethod ev \<noteq> ''OPTIONS'' \<and> (query_code ev = None \<or> query_code ev = Some []) \<longrightarrow>
      exchange_handler env net ev =
        (Some (reply 400 [(''error'', Some (JStr ''Missing code parameter''))]), [])) \<and>
   (httpMethod ev \<noteq> ''OPTIONS'' \<and> query_code ev \<noteq> None \<and> query_code ev \<noteq> Some [] \<and>
    (\<not> truthy_str (appId env) \<or> \<not> truthy_str (appSecret env)) \<longrightarrow>
      exchange_handler env net ev =
        (Some (reply 500 [(''error'', Some (JStr ''Server configuration error''))]), [])) \<and>
   ((\<exists>r. fst (exchange_handler env net ev) = Some r \<and> statusCode r = 500) \<longrightarrow>
      httpMethod ev \<noteq> ''OPTIONS'' \<and> query_code ev \<noteq> None \<and> query_code ev \<noteq> Some [])"
proof (intro conjI impI)
  assume "httpMethod ev \<noteq> ''OPTIONS'' \<and> (query_code ev = None \<or> query_code ev = Some [])"
  then show "exchange_handler env net ev =
        (Some (reply 400 [(''error'', Some (JStr ''Missing code parameter''))]), [])"
    by (auto simp: exchange_handler_def missing_code_def)
next
  assume a: "httpMethod ev \<noteq> ''OPTIONS'' \<and> query_code ev \<noteq> None \<and> query_code ev \<noteq> Some [] \<and>
    (\<not> truthy_str (appId env) \<or> \<not> truthy_str (appSecret env))"
  then obtain code where "query_code ev = Some code" "code \<noteq> []" by auto
  with a show "exchange_handler env net ev =
        (Some (reply 500 [(''error'', Some (JStr ''Server configuration error''))]), [])"
    by (cases "appId env"; cases "appSecret env")
       (auto simp: exchange_handler_def configuration_error_def)
next
  assume s: "\<exists>r. fst (exchange_handler env net ev) = Some r \<and> statusCode r = 500"
  have pre: "fst (exchange_handler env net ev) = Some preflight_reply"
    if "httpMethod ev = ''OPTIONS''"
    using that by (simp add: exchange_handler_def)
  have mis: "fst (exchange_handler env net ev) = Some missing_code"
    if "httpMethod ev \<noteq> ''OPTIONS''" "query_code ev = None \<or> query_code ev = Some []"
    using that by (auto simp: exchange_handler_def)
  have codes: "statusCode preflight_reply = 204" "statusCode missing_code = 400"
    by (simp_all add: preflight_reply_def missing_code_def reply_def)
  from s pre codes show m: "httpMethod ev \<noteq> ''OPTIONS''" by fastforce
  from s mis[OF m] codes show "query_code ev \<noteq> None" by fastforce
  from s mis[OF m] codes show "query_code ev \<noteq> Some []" by fastforce
qed

theorem input_check_precedes_configuration_check_witness:
  "httpMethod no_code \<noteq> ''OPTIONS'' \<and> query_code no_code = None \<and>
   \<not> truthy_str (appSecret no_secret) \<and>
   exchange_handler no_secret token_only no_code =
     (Some (reply 400 [(''error'', Some (JStr ''Missing code parameter''))]), []) \<and>
   exchange_handler no_secret token_only callback =
     (Some (reply 500 [(''error'', Some (JStr ''Server configuration error''))]), [])"
  using input_check_precedes_configuration_check[of no_code no_secret token_only]
    input_check_precedes_configuration_check[of callback no_secret token_only]
  by (simp add: no_code_def callback_def no_secret_def query_code_def)

text \<open>
  Claim C9 as stated promises 400 for every request without a code, also when the secret is
  missing. An \<^verbatim>\<open>OPTIONS\<close> request is answered with 204 before either check.
\<close>

theorem input_check_preflight_counterexample:
  "query_code preflight = None \<and> appSecret no_secret = None \<and>
   exchange_handler no_secret offline preflight = (Some preflight_reply, []) \<and>
   statusCode preflight_reply = 204 \<and> body preflight_reply = None"
  by (simp add: exchange_handler_def preflight_def query_code_def preflight_reply_def
        no_secret_def)

section \<open>The session client: refresh and current user\<close>

text \<open>
  Claim C7. \<^verbatim>\<open>refreshSupabaseToken\<close> and \<^verbatim>\<open>refreshAuthToken\<close> always return a boolean and
  never throw. While \<^verbatim>\<open>navigator.onLine\<close> is false they return false without calling the
  client library, so the state of the client, its cached session included, is what it was.
  When the refresh rejects, answers with an error or answers without a session, they return
  false.
\<close>

theorem refresh_failure_is_false:
  "(\<exists>b. fst (refreshSupabaseToken navigator refreshSession st) = Inr b) \<and>
   (\<exists>b. fst (refreshAuthToken navigator refreshSession st) = Inr b) \<and>
   (navigator = Some False \<longrightarrow>
      refreshSupabaseToken navigator refreshSession st = (Inr False, st) \<and>
      refreshAuthToken navigator refreshSession st = (Inr False, st)) \<and>
   ((\<exists>e. fst (refreshSession st) = Rejects e) \<or>
    (\<exists>r. fst (refreshSession st) = Resolves r \<and> (auth_error r \<noteq> None \<or> data_session r = None)) \<longrightarrow>
      fst (refreshSupabaseToken navigator refreshSession st) = Inr False \<and>
      fst (refreshAuthToken navigator refreshSession st) = Inr False)"
  by (cases "refreshSession st")
     (auto simp: refreshSupabaseToken_def refreshAuthToken_def refresh_try_def
        split: option.splits settled.splits sum.splits prod.splits if_splits)

theorem refresh_failure_is_false_witness:
  "refreshSupabaseToken (Some False) signs_out signed_in = (Inr False, signed_in) \<and>
   refreshAuthToken (Some False) signs_out signed_in = (Inr False, signed_in) \<and>
   cached_session signed_in = Some bare_session \<and>
   fst (refreshAuthToken (Some True) signs_out signed_in) = Inr False"
  using refresh_failure_is_false[of "Some False" signs_out signed_in]
    refresh_failure_is_false[of "Some True" signs_out signed_in]
  by (simp add: signs_out_def signed_in_def)

lemma set_member_lookup:
  "map_of (set_member k v kvs) k' = (if k' = k then Some v else map_of kvs k')"
  by (induction kvs) auto

lemma minimalUser_authenticated:
  "map_of (minimalUser env u) ''isAuthenticated'' = Some (JBool True)"
  by (simp add: minimalUser_def)

lemma enrich_authenticated: "map_of (enrich env u) ''isAuthenticated'' = Some (JBool True)"
  by (simp add: enrich_def set_member_lookup minimalUser_authenticated
        split: settled.splits option.splits)

text \<open>
  Claim C10. \<^verbatim>\<open>getCurrentUser\<close> always returns and never throws. It returns null exactly
  when the session lookup throws, answers with an error, or yields no session or no user;
  otherwise it returns a user whose \<^verbatim>\<open>isAuthenticated\<close> is true. When the read of the
  user's row throws, answers with an error or finds no row (or starting the update throws), the
  user returned is the minimal one built from the session: the id of the session's user, its
  email or the empty string, the role of its metadata or \<^verbatim>\<open>customer\<close>, its creation time or
  the current time, and \<^verbatim>\<open>isAuthenticated\<close> true. When the row is read, the user returned is
  the row with \<^verbatim>\<open>isAuthenticated\<close> set to true.
\<close>

theorem getCurrentUser_never_throws:
  "(getCurrentUser env = Inr None \<or>
    (\<exists>usr. getCurrentUser env = Inr (Some usr) \<and>
           map_of usr ''isAuthenticated'' = Some (JBool True))) \<and>
   (getCurrentUser env = Inr None \<longleftrightarrow>
      (\<exists>e. getSession env = Rejects e) \<or>
      (\<exists>r. getSession env = Resolves r \<and>
           (auth_error r \<noteq> None \<or> data_session r = None \<or>
            (\<exists>s. data_session r = Some s \<and> session_user s = None)))) \<and>
   (\<forall>r s u. getSession env = Resolves r \<and> auth_error r = None \<and> data_session r = Some s \<and>
            session_user s = Some u \<and>
            ((\<exists>e. users_single env (user_id u) = Rejects e) \<or>
             (\<exists>row. users_single env (user_id u) = Resolves row \<and>
                    (row_error row \<noteq> None \<or> row_data row = None \<or>
                     users_update env (user_id u) \<noteq> None))) \<longrightarrow>
        getCurrentUser env =
          Inr (Some
            [(''id'', JStr (user_id u)),
             (''email'', JStr (case user_email u of None \<Rightarrow> [] | Some e \<Rightarrow> e)),
             (''role'',
                case user_metadata_role u of
                  None \<Rightarrow> JStr ''customer''
                | Some j \<Rightarrow> if truthy (Some j) then j else JStr ''customer''),
             (''created_at'',
                JStr (case user_created_at u of
                        None \<Rightarrow> now_iso env
                      | Some c \<Rightarrow> if c = [] then now_iso env else c)),
             (''isAuthenticated'', JBool True)])) \<and>
   (\<forall>r s u row userData.
        getSession env = Resolves r \<and> auth_error r = None \<and> data_session r = Some s \<and>
        session_user s = Some u \<and> users_single env (user_id u) = Resolves row \<and>
        row_error row = None \<and> row_data row = Some userData \<and>
        users_update env (user_id u) = None \<longrightarrow>
          (\<exists>usr. getCurrentUser env = Inr (Some usr) \<and>
                 (\<forall>k. map_of usr k =
                        (if k = ''isAuthenticated'' then Some (JBool True)
                         else map_of userData k))))"
proof (intro conjI)
  show "getCurrentUser env = Inr None \<or>
    (\<exists>usr. getCurrentUser env = Inr (Some usr) \<and>
           map_of usr ''isAuthenticated'' = Some (JBool True))"
    by (auto simp: getCurrentUser_def getCurrentUser_try_def enrich_authenticated
          split: settled.splits option.splits)
  show "getCurrentUser env = Inr None \<longleftrightarrow>
      (\<exists>e. getSession env = Rejects e) \<or>
      (\<exists>r. getSession env = Resolves r \<and>
           (auth_error r \<noteq> None \<or> data_session r = None \<or>
            (\<exists>s. data_session r = Some s \<and> session_user s = None)))"
    by (auto simp: getCurrentUser_def getCurrentUser_try_def
          split: settled.splits option.splits)
  show "\<forall>r s u. getSession env = Resolves r \<and> auth_error r = None \<and> data_session r = Some s \<and>
            session_user s = Some u \<and>
            ((\<exists>e. users_single env (user_id u) = Rejects e) \<or>
             (\<exists>row. users_single env (user_id u) = Resolves row \<and>
                    (row_error row \<noteq> None \<or> row_data row = None \<or>
                     users_update env (user_id u) \<noteq> None))) \<longrightarrow>
        getCurrentUser env =
          Inr (Some
            [(''id'', JStr (user_id u)),
             (''email'', JStr (case user_email u of None \<Rightarrow> [] | Some e \<Rightarrow> e)),
             (''role'',
                case user_metadata_role u of
                  None \<Rightarrow> JStr ''customer''
                | Some j \<Rightarrow> if truthy (Some j) then j else JStr ''customer''),
             (''created_at'',
                JStr (case user_created_at u of
                        None \<Rightarrow> now_iso env
                      | Some c \<Rightarrow> if c = [] then now_iso env else c)),
             (''isAuthenticated'', JBool True)])"
    by (auto simp: getCurrentUser_def getCurrentUser_try_def enrich_def minimalUser_def
          or_else_def split: option.splits)
  show "\<forall>r s u row userData.
        getSession env = Resolves r \<and> auth_error r = None \<and> data_session r = Some s \<and>
        session_user s = Some u \<and> users_single env (user_id u) = Resolves row \<and>
        row_error row = None \<and> row_data row = Some userData \<and>
        users_update env (user_id u) = None \<longrightarrow>
          (\<exists>usr. getCurrentUser env = Inr (Some usr) \<and>
                 (\<forall>k. map_of usr k =
                        (if k = ''isAuthenticated'' then Some (JBool True)
                         else map_of userData k)))"
    by (auto simp: getCurrentUser_def getCurrentUser_try_def enrich_def set_member_lookup)
qed

theorem getCurrentUser_never_throws_witness:
  "getSession table_down =
     Resolves \<lparr>data_session = Some \<lparr>session_user = Some jane, session_expires_at = Some 1700003600\<rparr>,
               auth_error = None\<rparr> \<and>
   users_single table_down (user_id jane) = Rejects (plain_error ''Failed to fetch'') \<and>
   getCurrentUser table_down =
     Inr (Some [(''id'', JStr ''u-1''), (''email'', JStr ''jane@example.org''),
                (''role'', JStr ''customer''), (''created_at'', JStr ''2024-01-01T00:00:00.000Z''),
                (''isAuthenticated'', JBool True)]) \<and>
   users_single table_up (user_id jane) = Resolves \<lparr>row_data = Some jane_row, row_error = None\<rparr> \<and>
   getCurrentUser table_up =
     Inr (Some [(''id'', JStr ''u-1''), (''email'', JStr ''jane@example.org''),
                (''role'', JStr ''admin''), (''isAuthenticated'', JBool True)])"
proof -
  note t = getCurrentUser_never_throws[of table_down]
  have "getCurrentUser table_down =
     Inr (Some [(''id'', JStr ''u-1''), (''email'', JStr ''jane@example.org''),
                (''role'', JStr ''customer''), (''created_at'', JStr ''2024-01-01T00:00:00.000Z''),
                (''isAuthenticated'', JBool True)])"
    using t[THEN conjunct2, THEN conjunct2, THEN conjunct1, THEN spec, THEN spec, THEN spec,
        of "\<lparr>data_session = Some \<lparr>session_user = Some jane, session_expires_at = Some 1700003600\<rparr>,
             auth_error = None\<rparr>"
           "\<lparr>session_user = Some jane, session_expires_at = Some 1700003600\<rparr>" jane]
    by (simp add: table_down_def jane_def)
  moreover have "getCurrentUser table_up =
     Inr (Some [(''id'', JStr ''u-1''), (''email'', JStr ''jane@example.org''),
                (''role'', JStr ''admin''), (''isAuthenticated'', JBool True)])"
    by (simp add: getCurrentUser_def getCurrentUser_try_def enrich_def table_up_def
          table_down_def jane_def jane_row_def)
  ultimately show ?thesis
    by (simp add: table_down_def table_up_def jane_def)
qed

end
